theory Spec2Isabelle
  imports Main
begin

section \<open>JavaScript values and strings\<close>

text \<open>
  Request bodies are parsed JSON. Only the distinctions the handlers test are kept:
  truthiness and \<^verbatim>\<open>typeof v === 'string'\<close>. Strings are byte lists. The case and
  white-space operations below are \<^verbatim>\<open>toLowerCase\<close>, \<^verbatim>\<open>toUpperCase\<close> and
  \<^verbatim>\<open>trim\<close> on ASCII text: only the letters A to Z change case and only the space and
  the characters 9 to 13 are stripped. JavaScript also changes the case of letters beyond
  ASCII and strips the Unicode spaces (U+00A0, U+FEFF and others), so the model stands for
  the code on ASCII emails and header values only. Dates are integers (milliseconds).
\<close>

datatype jsval = JUndefined | JNull | JBool bool | JNum int | JStr string | JObj

datatype meta = MStr string | MNum int | MBool bool | MTime int | MUndef

definition lower_char :: "char \<Rightarrow> char" where
  "lower_char c =
     (let n = (of_char c :: nat) in if 65 \<le> n \<and> n \<le> 90 then char_of (n + 32) else c)"

definition toLowerCase :: "string \<Rightarrow> string" where
  "toLowerCase s = map lower_char s"

definition is_space :: "char \<Rightarrow> bool" where
  "is_space c = (let n = (of_char c :: nat) in n = 32 \<or> (9 \<le> n \<and> n \<le> 13))"

definition trim :: "string \<Rightarrow> string" where
  "trim s = rev (dropWhile is_space (rev (dropWhile is_space s)))"

text \<open>\<^verbatim>\<open>a || b\<close> on optional strings: the empty string and \<^verbatim>\<open>undefined\<close> are falsy.\<close>

definition truthy :: "string option \<Rightarrow> bool" where
  "truthy v = (case v of None \<Rightarrow> False | Some s \<Rightarrow> s \<noteq> [])"

definition or_else :: "string option \<Rightarrow> string option \<Rightarrow> string option" where
  "or_else a b = (if truthy a then a else b)"

text \<open>\<^verbatim>\<open>!v || typeof v !== 'string'\<close> is false exactly for a non-empty string.\<close>

definition nonempty_string :: "jsval \<Rightarrow> string option" where
  "nonempty_string v = (case v of JStr s \<Rightarrow> (if s = [] then None else Some s) | _ \<Rightarrow> None)"

text \<open>\<^verbatim>\<open>!v || typeof v !== 'string' || !v.trim()\<close>.\<close>

definition nonblank_string :: "jsval \<Rightarrow> string option" where
  "nonblank_string v =
     (case nonempty_string v of
        None \<Rightarrow> None
      | Some s \<Rightarrow> (if trim s = [] then None else Some s))"

section \<open>Requests and responses\<close>

record Request =
  x_forwarded_for :: "string option"
  user_agent :: "string option"
  authorization :: "string option"
  remoteAddress :: "string option"
  req_body :: "(string \<times> jsval) list"

definition body_field :: "Request \<Rightarrow> string \<Rightarrow> jsval" where
  "body_field req k = (case map_of (req_body req) k of None \<Rightarrow> JUndefined | Some v \<Rightarrow> v)"

text \<open>logger.ts, \<^verbatim>\<open>getClientIP\<close> and \<^verbatim>\<open>getUserAgent\<close>.\<close>

definition getClientIP :: "Request \<Rightarrow> string" where
  "getClientIP req =
     (case or_else
        (or_else (map_option (takeWhile (\<lambda>c. c \<noteq> CHR '','')) (x_forwarded_for req))
                 (remoteAddress req))
        (Some ''unknown'') of
        Some ip \<Rightarrow> ip
      | None \<Rightarrow> ''unknown'')"

definition getUserAgent :: "Request \<Rightarrow> string" where
  "getUserAgent req =
     (case or_else (user_agent req) (Some ''unknown'') of
        Some ua \<Rightarrow> ua
      | None \<Rightarrow> ''unknown'')"

datatype UserRole = customer | admin | staff

record UserProfile =
  p_id :: nat
  p_email :: string
  p_fullName :: string
  p_emailVerified :: bool
  p_lastLogin :: "int option"
  p_role :: UserRole
  p_createdAt :: int

datatype resp_body =
    ErrorBody string
  | LimiterBody string
  | MessageBody string
  | LoginBody UserProfile string string
  | RefreshBody string string
  | ValidateBody UserProfile
  | ProfileBody UserProfile

record Response =
  status :: nat
  body :: resp_body

text \<open>
  middleware/error.ts, \<^verbatim>\<open>errorHandler\<close>: a thrown error becomes a response with its
  \<^verbatim>\<open>status\<close> (500 when it has none) and its message.
\<close>

datatype thrown = Thrown "nat option" string

definition badRequest :: "string \<Rightarrow> thrown" where
  "badRequest message = Thrown (Some 400) message"

definition with_status :: "nat \<Rightarrow> string \<Rightarrow> thrown" where
  "with_status st message = Thrown (Some st) message"

fun errorHandler :: "thrown \<Rightarrow> Response" where
  "errorHandler (Thrown st message) =
     \<lparr>status = (case st of Some n \<Rightarrow> n | None \<Rightarrow> 500), body = ErrorBody message\<rparr>"

definition json_ok :: "resp_body \<Rightarrow> Response" where
  "json_ok b = \<lparr>status = 200, body = b\<rparr>"

section \<open>Collections\<close>

datatype SecurityEventType =
    LOGIN_SUCCESS | LOGIN_FAILED | LOGIN_BLOCKED
  | REGISTRATION_SUCCESS | REGISTRATION_FAILED
  | PASSWORD_RESET_REQUESTED | PASSWORD_RESET_SUCCESS | PASSWORD_RESET_FAILED
  | TOKEN_VALIDATION_FAILED | SUSPICIOUS_ACTIVITY | ACCOUNT_LOCKED
  | MULTIPLE_FAILED_ATTEMPTS

datatype SeverityLevel = low | medium | high | critical

record AuditLogDoc =
  eventType :: SecurityEventType
  severity :: SeverityLevel
  al_id :: nat
  al_userId :: "nat option"
  al_email :: "string option"
  al_ipAddress :: "string option"
  al_userAgent :: "string option"
  al_details :: "(string \<times> meta) list"
  al_timestamp :: int
  resolved :: bool

text \<open>
  Object ids are natural numbers; \<^verbatim>\<open>toHexString\<close> is the identity on them, and a
  user id travels as the number it names.
\<close>

record UserDoc =
  u_id :: nat
  u_email :: string
  u_fullName :: string
  u_passwordHash :: string
  u_createdAt :: int
  u_updatedAt :: int
  u_emailVerified :: bool
  u_lastLogin :: "int option"
  u_role :: UserRole
  locked :: bool
  lockReason :: "string option"
  lockedAt :: "int option"

record RefreshTokenDoc =
  rt_id :: nat
  rt_userId :: nat
  rt_token :: string
  rt_expiresAt :: int
  revoked :: bool
  revokedAt :: "int option"
  rt_createdAt :: int
  rt_ipAddress :: "string option"
  rt_userAgent :: "string option"

record PasswordResetTokenDoc =
  prt_id :: nat
  prt_userId :: nat
  prt_token :: string
  prt_expiresAt :: int
  used :: bool
  prt_createdAt :: int

record Mail =
  mail_to :: string
  mail_name :: string
  mail_token :: string

text \<open>
  The database and the two output channels of the process: the four collections in
  insertion order, the object-id counter, the Winston log (level and message) and the
  mails handed to the transporter.
\<close>

record state =
  users :: "UserDoc list"
  refreshTokens :: "RefreshTokenDoc list"
  passwordResetTokens :: "PasswordResetTokenDoc list"
  auditLogs :: "AuditLogDoc list"
  nextId :: nat
  winston :: "(string \<times> string) list"
  outbox :: "Mail list"

text \<open>\<^verbatim>\<open>updateOne(filter, update)\<close>: the first matching document is updated.\<close>

fun updateOne :: "('a \<Rightarrow> bool) \<Rightarrow> ('a \<Rightarrow> 'a) \<Rightarrow> 'a list \<Rightarrow> 'a list" where
  "updateOne P f [] = []"
| "updateOne P f (x # xs) = (if P x then f x # xs else x # updateOne P f xs)"

text \<open>\<^verbatim>\<open>countDocuments(filter)\<close>.\<close>

definition countDocuments :: "('a \<Rightarrow> bool) \<Rightarrow> 'a list \<Rightarrow> int" where
  "countDocuments P xs = int (length (filter P xs))"


section \<open>Libraries and the outside world\<close>

text \<open>
  The third-party functions the code calls are parameters: bcrypt, jsonwebtoken (with the
  secret, issuer, audience and expiry options the calls pass) and SHA-1. What differs from
  one request to the next is a parameter too: the clock, the random token
  \<^verbatim>\<open>crypto.randomBytes\<close> returns, what \<^verbatim>\<open>fetch\<close> answers, and whether the mail
  transport accepts a message.
\<close>

record JWTPayload =
  jwt_userId :: nat
  jwt_email :: string
  jwt_role :: UserRole
  jwt_ipAddress :: "string option"
  jwt_userAgent :: "string option"

text \<open>
  What \<^verbatim>\<open>fetch\<close> does: it rejects, or it answers with \<^verbatim>\<open>ok\<close>, a status and a body
  (\<open>None\<close> when reading the body fails).
\<close>

datatype fetch_result = FetchThrows | FetchResponse bool nat "string option"

record lib =
  bcrypt_hash :: "string \<Rightarrow> string"
  bcrypt_compare :: "string \<Rightarrow> string \<Rightarrow> bool"
  jwt_sign :: "JWTPayload \<Rightarrow> int \<Rightarrow> string"
  jwt_verify :: "string \<Rightarrow> int \<Rightarrow> JWTPayload option"
  sha1_hex :: "string \<Rightarrow> string"
  toLocaleString :: "int \<Rightarrow> string"

record world =
  now :: int
  randomBytes :: string
  fetch :: "string \<Rightarrow> fetch_result"
  sendMail_ok :: bool

section \<open>repos/auditLogRepo.ts\<close>

record CreateAuditLogInput =
  ci_eventType :: SecurityEventType
  ci_severity :: SeverityLevel
  ci_userId :: "nat option"
  ci_email :: "string option"
  ci_ipAddress :: "string option"
  ci_userAgent :: "string option"
  ci_details :: "(string \<times> meta) list"

definition createAuditLog :: "int \<Rightarrow> CreateAuditLogInput \<Rightarrow> state \<Rightarrow> state" where
  "createAuditLog t input s =
     s\<lparr>auditLogs := auditLogs s @
          [\<lparr>eventType = ci_eventType input, severity = ci_severity input,
            al_id = nextId s, al_userId = ci_userId input, al_email = ci_email input,
            al_ipAddress = ci_ipAddress input, al_userAgent = ci_userAgent input,
            al_details = ci_details input, al_timestamp = t, resolved = False\<rparr>],
       nextId := Suc (nextId s)\<rparr>"

definition getFailedLoginAttempts :: "AuditLogDoc list \<Rightarrow> int \<Rightarrow> string \<Rightarrow> int \<Rightarrow> int" where
  "getFailedLoginAttempts col t email sinceMinutes =
     (let since = t - sinceMinutes * 60 * 1000 in
      countDocuments
        (\<lambda>d. eventType d = LOGIN_FAILED \<and> al_email d = Some (toLowerCase email) \<and>
             since \<le> al_timestamp d) col)"

definition getFailedLoginAttemptsByIP :: "AuditLogDoc list \<Rightarrow> int \<Rightarrow> string \<Rightarrow> int \<Rightarrow> int" where
  "getFailedLoginAttemptsByIP col t ip sinceMinutes =
     (let since = t - sinceMinutes * 60 * 1000 in
      countDocuments
        (\<lambda>d. eventType d = LOGIN_FAILED \<and> al_ipAddress d = Some ip \<and>
             since \<le> al_timestamp d) col)"

definition getPasswordResetRequestsByEmail :: "AuditLogDoc list \<Rightarrow> int \<Rightarrow> string \<Rightarrow> int \<Rightarrow> int" where
  "getPasswordResetRequestsByEmail col t email sinceMinutes =
     (let since = t - sinceMinutes * 60 * 1000 in
      countDocuments
        (\<lambda>d. eventType d = PASSWORD_RESET_REQUESTED \<and> al_email d = Some (toLowerCase email) \<and>
             since \<le> al_timestamp d) col)"

definition getPasswordResetRequestsByIP :: "AuditLogDoc list \<Rightarrow> int \<Rightarrow> string \<Rightarrow> int \<Rightarrow> int" where
  "getPasswordResetRequestsByIP col t ip sinceMinutes =
     (let since = t - sinceMinutes * 60 * 1000 in
      countDocuments
        (\<lambda>d. eventType d = PASSWORD_RESET_REQUESTED \<and> al_ipAddress d = Some ip \<and>
             since \<le> al_timestamp d) col)"

section \<open>repos/userRepo.ts\<close>

definition findUserByEmail :: "UserDoc list \<Rightarrow> string \<Rightarrow> UserDoc option" where
  "findUserByEmail col email = find (\<lambda>u. u_email u = trim (toLowerCase email)) col"

definition findUserById :: "UserDoc list \<Rightarrow> nat \<Rightarrow> UserDoc option" where
  "findUserById col i = find (\<lambda>u. u_id u = i) col"

definition updateLastLogin :: "int \<Rightarrow> nat \<Rightarrow> state \<Rightarrow> state" where
  "updateLastLogin t userId s =
     s\<lparr>users := updateOne (\<lambda>u. u_id u = userId)
          (\<lambda>u. u\<lparr>u_lastLogin := Some t, u_updatedAt := t\<rparr>) (users s)\<rparr>"

definition updatePassword :: "int \<Rightarrow> nat \<Rightarrow> string \<Rightarrow> state \<Rightarrow> state" where
  "updatePassword t userId newPasswordHash s =
     s\<lparr>users := updateOne (\<lambda>u. u_id u = userId)
          (\<lambda>u. u\<lparr>u_passwordHash := newPasswordHash, u_updatedAt := t\<rparr>) (users s)\<rparr>"

definition lockAccount :: "int \<Rightarrow> nat \<Rightarrow> string \<Rightarrow> state \<Rightarrow> state" where
  "lockAccount t userId reason s =
     s\<lparr>users := updateOne (\<lambda>u. u_id u = userId)
          (\<lambda>u. u\<lparr>locked := True, lockReason := Some reason, lockedAt := Some t,
                 u_updatedAt := t\<rparr>) (users s)\<rparr>"

definition toUserProfile :: "UserDoc \<Rightarrow> UserProfile" where
  "toUserProfile u =
     \<lparr>p_id = u_id u, p_email = u_email u, p_fullName = u_fullName u,
      p_emailVerified = u_emailVerified u, p_lastLogin = u_lastLogin u, p_role = u_role u,
      p_createdAt = u_createdAt u\<rparr>"

section \<open>lib/logger.ts\<close>

fun event_name :: "SecurityEventType \<Rightarrow> string" where
  "event_name LOGIN_SUCCESS = ''LOGIN_SUCCESS''"
| "event_name LOGIN_FAILED = ''LOGIN_FAILED''"
| "event_name LOGIN_BLOCKED = ''LOGIN_BLOCKED''"
| "event_name REGISTRATION_SUCCESS = ''REGISTRATION_SUCCESS''"
| "event_name REGISTRATION_FAILED = ''REGISTRATION_FAILED''"
| "event_name PASSWORD_RESET_REQUESTED = ''PASSWORD_RESET_REQUESTED''"
| "event_name PASSWORD_RESET_SUCCESS = ''PASSWORD_RESET_SUCCESS''"
| "event_name PASSWORD_RESET_FAILED = ''PASSWORD_RESET_FAILED''"
| "event_name TOKEN_VALIDATION_FAILED = ''TOKEN_VALIDATION_FAILED''"
| "event_name SUSPICIOUS_ACTIVITY = ''SUSPICIOUS_ACTIVITY''"
| "event_name ACCOUNT_LOCKED = ''ACCOUNT_LOCKED''"
| "event_name MULTIPLE_FAILED_ATTEMPTS = ''MULTIPLE_FAILED_ATTEMPTS''"

record SecDetails =
  d_userId :: "nat option"
  d_email :: "string option"
  d_ipAddress :: "string option"
  d_userAgent :: "string option"
  d_metadata :: "(string \<times> meta) list"
  d_req :: "Request option"

text \<open>
  \<^verbatim>\<open>logSecurityEvent\<close>: one Winston line, then one audit document. The database is
  taken to be reachable, so the \<^verbatim>\<open>catch\<close> around \<^verbatim>\<open>createAuditLog\<close> is never entered.
\<close>

definition logSecurityEvent ::
  "int \<Rightarrow> SecurityEventType \<Rightarrow> SeverityLevel \<Rightarrow> SecDetails \<Rightarrow> state \<Rightarrow> state" where
  "logSecurityEvent t ev sev d s =
     (let ip = or_else (d_ipAddress d) (map_option getClientIP (d_req d));
          ua = or_else (d_userAgent d) (map_option getUserAgent (d_req d));
          logLevel = (if sev = critical \<or> sev = high then ''error'' else ''warn'');
          s1 = s\<lparr>winston := winston s @ [(logLevel, ''Security Event: '' @ event_name ev)]\<rparr>
      in createAuditLog t
           \<lparr>ci_eventType = ev, ci_severity = sev, ci_userId = d_userId d,
            ci_email = d_email d, ci_ipAddress = ip, ci_userAgent = ua,
            ci_details = d_metadata d\<rparr> s1)"

record LoginCheck =
  blocked :: bool
  attemptsLeft :: "int option"
  accountLocked :: "bool option"

text \<open>The severity ladder of \<^verbatim>\<open>trackFailedLogin\<close>, on the two totals it computes.\<close>

definition login_severity :: "int \<Rightarrow> int \<Rightarrow> SeverityLevel" where
  "login_severity totalAttempts ipTotalAttempts =
     (if 5 \<le> totalAttempts \<or> 10 \<le> ipTotalAttempts then critical
      else if 3 \<le> totalAttempts \<or> 5 \<le> ipTotalAttempts then high
      else if 2 \<le> totalAttempts then medium
      else low)"

definition trackFailedLogin ::
  "int \<Rightarrow> string \<Rightarrow> Request \<Rightarrow> string \<Rightarrow> nat option \<Rightarrow> state \<Rightarrow> LoginCheck \<times> state" where
  "trackFailedLogin t email req reason userId s =
     (let ipAddress = getClientIP req;
          userAgent = getUserAgent req;
          shortTermAttempts = getFailedLoginAttempts (auditLogs s) t email 15;
          longTermAttempts = getFailedLoginAttempts (auditLogs s) t email 1440;
          ipAttempts = getFailedLoginAttemptsByIP (auditLogs s) t ipAddress 15;
          totalAttempts = shortTermAttempts + 1;
          ipTotalAttempts = ipAttempts + 1;
          dailyAttempts = longTermAttempts + 1;
          severity = login_severity totalAttempts ipTotalAttempts;
          s1 = logSecurityEvent t LOGIN_FAILED severity
                 \<lparr>d_userId = None, d_email = Some email, d_ipAddress = Some ipAddress,
                  d_userAgent = Some userAgent,
                  d_metadata = [(''reason'', MStr reason), (''emailAttempts'', MNum totalAttempts),
                                (''ipAttempts'', MNum ipTotalAttempts),
                                (''dailyAttempts'', MNum dailyAttempts)],
                  d_req = None\<rparr> s
      in case (if 10 \<le> dailyAttempts then userId else None) of
           Some uid \<Rightarrow>
             (let s2 = lockAccount t uid
                    ''Account locked after 10 failed login attempts in 24 hours. Please reset your password to unlock.''
                    s1;
                  s3 = logSecurityEvent t ACCOUNT_LOCKED critical
                         \<lparr>d_userId = Some uid, d_email = Some email,
                          d_ipAddress = Some ipAddress, d_userAgent = Some userAgent,
                          d_metadata = [(''reason'', MStr ''Too many failed login attempts''),
                                        (''attemptsIn24Hours'', MNum dailyAttempts)],
                          d_req = None\<rparr> s2
              in (\<lparr>blocked = True, attemptsLeft = None, accountLocked = Some True\<rparr>, s3))
         | None \<Rightarrow>
             (let maxAttempts = 5;
                  isBlocked = (maxAttempts \<le> totalAttempts \<or> 10 \<le> ipTotalAttempts)
              in if isBlocked then
                   (\<lparr>blocked = True, attemptsLeft = None, accountLocked = None\<rparr>,
                    logSecurityEvent t LOGIN_BLOCKED critical
                      \<lparr>d_userId = None, d_email = Some email, d_ipAddress = Some ipAddress,
                       d_userAgent = Some userAgent,
                       d_metadata = [(''reason'', MStr ''Too many failed attempts''),
                                     (''emailAttempts'', MNum totalAttempts),
                                     (''ipAttempts'', MNum ipTotalAttempts)],
                       d_req = None\<rparr> s1)
                 else
                   (\<lparr>blocked = False, attemptsLeft = Some (maxAttempts - totalAttempts),
                     accountLocked = None\<rparr>, s1)))"

definition trackSuccessfulLogin :: "int \<Rightarrow> nat \<Rightarrow> string \<Rightarrow> Request \<Rightarrow> state \<Rightarrow> state" where
  "trackSuccessfulLogin t userId email req s =
     logSecurityEvent t LOGIN_SUCCESS low
       \<lparr>d_userId = Some userId, d_email = Some email, d_ipAddress = None, d_userAgent = None,
        d_metadata = [(''timestamp'', MTime t)], d_req = Some req\<rparr> s"

definition trackSuspiciousActivity ::
  "int \<Rightarrow> string \<Rightarrow> Request \<Rightarrow> (string \<times> meta) list \<Rightarrow> state \<Rightarrow> state" where
  "trackSuspiciousActivity t activity req details s =
     logSecurityEvent t SUSPICIOUS_ACTIVITY high
       \<lparr>d_userId = None, d_email = None, d_ipAddress = None, d_userAgent = None,
        d_metadata = [(''activity'', MStr activity)] @ details @ [(''timestamp'', MTime t)],
        d_req = Some req\<rparr> s"

definition trackTokenValidationFailure ::
  "int \<Rightarrow> string \<Rightarrow> Request \<Rightarrow> string option \<Rightarrow> state \<Rightarrow> state" where
  "trackTokenValidationFailure t reason req tok s =
     logSecurityEvent t TOKEN_VALIDATION_FAILED medium
       \<lparr>d_userId = None, d_email = None, d_ipAddress = None, d_userAgent = None,
        d_metadata = [(''reason'', MStr reason),
                      (''tokenPreview'',
                         (case tok of
                            Some k \<Rightarrow> if k = [] then MUndef else MStr (take 20 k @ ''...'')
                          | None \<Rightarrow> MUndef)),
                      (''timestamp'', MTime t)],
        d_req = Some req\<rparr> s"

definition trackPasswordReset ::
  "int \<Rightarrow> bool \<Rightarrow> nat option \<Rightarrow> string option \<Rightarrow> Request \<Rightarrow> string option \<Rightarrow> state \<Rightarrow> state" where
  "trackPasswordReset t success userId email req reason s =
     logSecurityEvent t
       (if success then PASSWORD_RESET_SUCCESS else PASSWORD_RESET_FAILED)
       (if success then medium else high)
       \<lparr>d_userId = userId, d_email = email, d_ipAddress = None, d_userAgent = None,
        d_metadata = [(''reason'', (case reason of Some r \<Rightarrow> MStr r | None \<Rightarrow> MUndef)),
                      (''timestamp'', MTime t)],
        d_req = Some req\<rparr> s"

section \<open>lib/auth.ts and repos/refreshTokenRepo.ts\<close>

definition generateAccessToken :: "lib \<Rightarrow> int \<Rightarrow> JWTPayload \<Rightarrow> string" where
  "generateAccessToken l t payload = jwt_sign l payload t"

record CreateRefreshTokenInput =
  in_userId :: nat
  in_token :: string
  in_expiresAt :: int
  in_ipAddress :: "string option"
  in_userAgent :: "string option"

definition REFRESH_TOKEN_EXPIRES_DAYS :: int where
  "REFRESH_TOKEN_EXPIRES_DAYS = 7"

definition createRefreshTokenData ::
  "world \<Rightarrow> nat \<Rightarrow> string option \<Rightarrow> string option \<Rightarrow> CreateRefreshTokenInput" where
  "createRefreshTokenData w userId ip ua =
     \<lparr>in_userId = userId, in_token = randomBytes w,
      in_expiresAt = now w + REFRESH_TOKEN_EXPIRES_DAYS * 24 * 60 * 60 * 1000,
      in_ipAddress = ip, in_userAgent = ua\<rparr>"

definition createRefreshToken ::
  "int \<Rightarrow> CreateRefreshTokenInput \<Rightarrow> state \<Rightarrow> RefreshTokenDoc \<times> state" where
  "createRefreshToken t input s =
     (let doc = \<lparr>rt_id = nextId s, rt_userId = in_userId input, rt_token = in_token input,
                 rt_expiresAt = in_expiresAt input, revoked = False, revokedAt = None,
                 rt_createdAt = t, rt_ipAddress = in_ipAddress input,
                 rt_userAgent = in_userAgent input\<rparr>
      in (doc, s\<lparr>refreshTokens := refreshTokens s @ [doc], nextId := Suc (nextId s)\<rparr>))"

definition findValidRefreshToken :: "RefreshTokenDoc list \<Rightarrow> int \<Rightarrow> string \<Rightarrow> RefreshTokenDoc option" where
  "findValidRefreshToken col t tok =
     find (\<lambda>d. rt_token d = tok \<and> revoked d = False \<and> t < rt_expiresAt d) col"

definition revokeRefreshToken :: "int \<Rightarrow> string \<Rightarrow> state \<Rightarrow> state" where
  "revokeRefreshToken t tok s =
     s\<lparr>refreshTokens := updateOne (\<lambda>d. rt_token d = tok)
          (\<lambda>d. d\<lparr>revoked := True, revokedAt := Some t\<rparr>) (refreshTokens s)\<rparr>"

definition rotateRefreshToken ::
  "int \<Rightarrow> string \<Rightarrow> CreateRefreshTokenInput \<Rightarrow> state \<Rightarrow> RefreshTokenDoc option \<times> state" where
  "rotateRefreshToken t oldToken newTokenData s =
     (case findValidRefreshToken (refreshTokens s) t oldToken of
        None \<Rightarrow> (None, s)
      | Some oldRefreshToken \<Rightarrow>
          (let s1 = revokeRefreshToken t oldToken s;
               (newRefreshToken, s2) = createRefreshToken t newTokenData s1
           in (Some newRefreshToken, s2)))"

section \<open>routes/auth.ts: POST /auth/login\<close>

text \<open>
  The handler at one instant \<open>now w\<close>. \<^verbatim>\<open>updateLastLogin\<close> is started without being
  awaited; its write is taken to land. \<^verbatim>\<open>authLimiter\<close> (express-rate-limit, five requests
  per address in fifteen minutes) runs before the handler; its verdict is the parameter
  \<open>limited\<close> of \<open>login_route\<close>.
\<close>

definition login_handler :: "lib \<Rightarrow> world \<Rightarrow> Request \<Rightarrow> state \<Rightarrow> Response \<times> state" where
  "login_handler l w req s =
     (case nonblank_string (body_field req ''email'') of
        None \<Rightarrow> (errorHandler (badRequest ''Email is required''), s)
      | Some email \<Rightarrow>
     (case nonempty_string (body_field req ''password'') of
        None \<Rightarrow> (errorHandler (badRequest ''Password is required''), s)
      | Some password \<Rightarrow>
     (case findUserByEmail (users s) email of
        None \<Rightarrow>
          (let (loginCheck, s1) = trackFailedLogin (now w) email req ''User not found'' None s
           in if blocked loginCheck then
                (errorHandler (with_status 429
                   ''Too many failed login attempts. Please try again later.''), s1)
              else (errorHandler (badRequest ''Invalid email or password''), s1))
      | Some user \<Rightarrow>
          if locked user then
            (let reason = (case or_else (lockReason user)
                                  (Some ''Account locked due to security concerns'') of
                             Some r \<Rightarrow> r | None \<Rightarrow> []);
                 s1 = trackSuspiciousActivity (now w) ''Login attempt on locked account'' req
                        [(''userId'', MNum (int (u_id user))), (''email'', MStr (u_email user)),
                         (''lockReason'', MStr reason)] s
             in (errorHandler (with_status 403 (''Account is locked. '' @ reason)), s1))
          else if \<not> bcrypt_compare l password (u_passwordHash user) then
            (let (loginCheck, s1) = trackFailedLogin (now w) email req ''Invalid password'' None s
             in if blocked loginCheck then
                  (errorHandler (with_status 429
                     ''Too many failed login attempts. Please try again later.''), s1)
                else (errorHandler (badRequest ''Invalid email or password''), s1))
          else
            (let s1 = trackSuccessfulLogin (now w) (u_id user) (u_email user) req s;
                 s2 = updateLastLogin (now w) (u_id user) s1;
                 tok = generateAccessToken l (now w)
                         \<lparr>jwt_userId = u_id user, jwt_email = u_email user,
                          jwt_role = u_role user, jwt_ipAddress = Some (getClientIP req),
                          jwt_userAgent = Some (getUserAgent req)\<rparr>;
                 refreshTokenData = createRefreshTokenData w (u_id user)
                                      (Some (getClientIP req)) (Some (getUserAgent req));
                 (created, s3) = createRefreshToken (now w) refreshTokenData s2
             in (json_ok (LoginBody (toUserProfile user) tok (in_token refreshTokenData)), s3)))))"

definition authLimiter_response :: Response where
  "authLimiter_response =
     \<lparr>status = 429,
      body = LimiterBody
        ''Too many authentication attempts from this IP. Please try again after 15 minutes''\<rparr>"

definition login_route :: "bool \<Rightarrow> lib \<Rightarrow> world \<Rightarrow> Request \<Rightarrow> state \<Rightarrow> Response \<times> state" where
  "login_route limited l w req s =
     (if limited then (authLimiter_response, s) else login_handler l w req s)"



section \<open>Rotation with other requests in between\<close>

text \<open>
  \<^verbatim>\<open>rotateRefreshToken\<close> awaits three database calls in turn. Each call is one atomic
  step; between two steps of one rotation the event loop may run steps of another request.
  A task remembers where its rotation stands.
\<close>

datatype rot_task =
    RotFind string CreateRefreshTokenInput
  | RotRevoke string CreateRefreshTokenInput
  | RotCreate CreateRefreshTokenInput
  | RotDone "RefreshTokenDoc option"

fun rot_step :: "int \<Rightarrow> rot_task \<Rightarrow> state \<Rightarrow> rot_task \<times> state" where
  "rot_step t (RotFind oldToken newTokenData) s =
     (case findValidRefreshToken (refreshTokens s) t oldToken of
        None \<Rightarrow> (RotDone None, s)
      | Some oldRefreshToken \<Rightarrow> (RotRevoke oldToken newTokenData, s))"
| "rot_step t (RotRevoke oldToken newTokenData) s =
     (RotCreate newTokenData, revokeRefreshToken t oldToken s)"
| "rot_step t (RotCreate newTokenData) s =
     (let (newRefreshToken, s1) = createRefreshToken t newTokenData s
      in (RotDone (Some newRefreshToken), s1))"
| "rot_step t (RotDone r) s = (RotDone r, s)"

text \<open>A schedule names, step by step, which task runs next and at what time.\<close>

fun run_schedule :: "(nat \<times> int) list \<Rightarrow> rot_task list \<Rightarrow> state \<Rightarrow> rot_task list \<times> state" where
  "run_schedule [] tasks s = (tasks, s)"
| "run_schedule ((i, t) # rest) tasks s =
     (if i < length tasks then
        (let (task, s1) = rot_step t (tasks ! i) s
         in run_schedule rest (tasks[i := task]) s1)
      else run_schedule rest tasks s)"

fun rot_succeeded :: "rot_task \<Rightarrow> bool" where
  "rot_succeeded (RotDone (Some d)) = True"
| "rot_succeeded _ = False"

section \<open>routes/auth.ts: POST /auth/logout\<close>

definition logout_handler :: "world \<Rightarrow> Request \<Rightarrow> state \<Rightarrow> Response \<times> state" where
  "logout_handler w req s =
     (case nonempty_string (body_field req ''refreshToken'') of
        None \<Rightarrow> (errorHandler (badRequest ''Refresh token is required''), s)
      | Some refreshToken \<Rightarrow>
          (json_ok (MessageBody ''Logged out successfully''),
           revokeRefreshToken (now w) refreshToken s))"

section \<open>lib/auth.ts: token verification\<close>

definition verifyAccessToken :: "lib \<Rightarrow> int \<Rightarrow> string \<Rightarrow> JWTPayload option" where
  "verifyAccessToken l t tok = jwt_verify l tok t"

record Mismatch =
  ipChanged :: bool
  userAgentChanged :: bool
  originalIp :: "string option"
  currentIp :: "string option"
  originalUserAgent :: "string option"
  currentUserAgent :: "string option"

record Verification =
  valid :: bool
  payload :: "JWTPayload option"
  mismatch :: "Mismatch option"

definition verifyAccessTokenWithContext ::
  "lib \<Rightarrow> int \<Rightarrow> string \<Rightarrow> string \<Rightarrow> string \<Rightarrow> Verification" where
  "verifyAccessTokenWithContext l t tok currentIpAddress currentUA =
     (case verifyAccessToken l t tok of
        None \<Rightarrow> \<lparr>valid = False, payload = None, mismatch = None\<rparr>
      | Some p \<Rightarrow>
          if \<not> truthy (jwt_ipAddress p) \<or> \<not> truthy (jwt_userAgent p) then
            \<lparr>valid = True, payload = Some p, mismatch = None\<rparr>
          else
            (let ipCh = (jwt_ipAddress p \<noteq> Some currentIpAddress);
                 uaCh = (jwt_userAgent p \<noteq> Some currentUA)
             in if ipCh \<or> uaCh then
                  \<lparr>valid = False, payload = Some p,
                   mismatch = Some \<lparr>ipChanged = ipCh, userAgentChanged = uaCh,
                                    originalIp = jwt_ipAddress p,
                                    currentIp = Some currentIpAddress,
                                    originalUserAgent = jwt_userAgent p,
                                    currentUserAgent = Some currentUA\<rparr>\<rparr>
                else \<lparr>valid = True, payload = Some p, mismatch = None\<rparr>))"

text \<open>\<^verbatim>\<open>extractTokenFromHeader\<close>: exactly two space-separated parts, the first \<^verbatim>\<open>Bearer\<close>.\<close>

fun split_on :: "char \<Rightarrow> string \<Rightarrow> string list" where
  "split_on c [] = [[]]"
| "split_on c (x # xs) =
     (if x = c then [] # split_on c xs
      else (case split_on c xs of
              [] \<Rightarrow> [[x]]
            | p # ps \<Rightarrow> (x # p) # ps))"

definition extractTokenFromHeader :: "string option \<Rightarrow> string option" where
  "extractTokenFromHeader authHeader =
     (if \<not> truthy authHeader then None
      else (case split_on CHR '' '' (case authHeader of Some h \<Rightarrow> h | None \<Rightarrow> []) of
              [a, b] \<Rightarrow> if a = ''Bearer'' then Some b else None
            | _ \<Rightarrow> None))"

section \<open>routes/auth.ts: GET /auth/validate and GET /auth/me\<close>

text \<open>
  Both handlers test \<^verbatim>\<open>!token\<close>: a missing header, a header of another shape, and
  the empty token of \<^verbatim>\<open>Bearer \<close> followed by nothing all take the first branch.
\<close>

definition mismatch_details :: "Verification \<Rightarrow> Mismatch \<Rightarrow> bool \<Rightarrow> (string \<times> meta) list" where
  "mismatch_details v m withUA =
     [(''userId'', (case payload v of Some p \<Rightarrow> MNum (int (jwt_userId p)) | None \<Rightarrow> MUndef)),
      (''email'', (case payload v of Some p \<Rightarrow> MStr (jwt_email p) | None \<Rightarrow> MUndef)),
      (''ipChanged'', MBool (ipChanged m)),
      (''userAgentChanged'', MBool (userAgentChanged m)),
      (''originalIp'', (case originalIp m of Some x \<Rightarrow> MStr x | None \<Rightarrow> MUndef)),
      (''currentIp'', (case currentIp m of Some x \<Rightarrow> MStr x | None \<Rightarrow> MUndef))] @
     (if withUA then
        [(''originalUserAgent'', (case originalUserAgent m of Some x \<Rightarrow> MStr x | None \<Rightarrow> MUndef)),
         (''currentUserAgent'', (case currentUserAgent m of Some x \<Rightarrow> MStr x | None \<Rightarrow> MUndef))]
      else [])"

definition validate_handler :: "lib \<Rightarrow> world \<Rightarrow> Request \<Rightarrow> state \<Rightarrow> Response \<times> state" where
  "validate_handler l w req s =
     (case or_else (extractTokenFromHeader (authorization req)) None of
        None \<Rightarrow>
          (errorHandler (badRequest ''Authorization token is required''),
           trackTokenValidationFailure (now w) ''Missing authorization token'' req None s)
      | Some tok \<Rightarrow>
          (let verification =
                 verifyAccessTokenWithContext l (now w) tok (getClientIP req) (getUserAgent req)
           in case (if valid verification then payload verification else None) of
                None \<Rightarrow>
                  (case mismatch verification of
                     Some m \<Rightarrow>
                       (errorHandler (with_status 401
                          ''Session hijacking detected. Please log in again.''),
                        trackSuspiciousActivity (now w) ''Session hijacking attempt detected'' req
                          (mismatch_details verification m True) s)
                   | None \<Rightarrow>
                       (errorHandler (with_status 401 ''Invalid or expired token''),
                        trackTokenValidationFailure (now w) ''Invalid or expired JWT'' req
                          (Some tok) s))
              | Some p \<Rightarrow>
                  (case findUserById (users s) (jwt_userId p) of
                     None \<Rightarrow>
                       (errorHandler (with_status 404 ''User not found''),
                        trackTokenValidationFailure (now w) ''User not found for token'' req
                          (Some tok) s)
                   | Some user \<Rightarrow> (json_ok (ValidateBody (toUserProfile user)), s))))"

definition me_handler :: "lib \<Rightarrow> world \<Rightarrow> Request \<Rightarrow> state \<Rightarrow> Response \<times> state" where
  "me_handler l w req s =
     (case or_else (extractTokenFromHeader (authorization req)) None of
        None \<Rightarrow> (errorHandler (with_status 401 ''Authentication required''), s)
      | Some tok \<Rightarrow>
          (let verification =
                 verifyAccessTokenWithContext l (now w) tok (getClientIP req) (getUserAgent req)
           in case (if valid verification then payload verification else None) of
                None \<Rightarrow>
                  (case mismatch verification of
                     Some m \<Rightarrow>
                       (errorHandler (with_status 401
                          ''Session hijacking detected. Please log in again.''),
                        trackSuspiciousActivity (now w) ''Session hijacking attempt detected'' req
                          (mismatch_details verification m False) s)
                   | None \<Rightarrow> (errorHandler (with_status 401 ''Invalid or expired token''), s))
              | Some p \<Rightarrow>
                  (case findUserById (users s) (jwt_userId p) of
                     None \<Rightarrow> (errorHandler (with_status 404 ''User not found''), s)
                   | Some user \<Rightarrow> (json_ok (ProfileBody (toUserProfile user)), s))))"

section \<open>lib/passwordBreach.ts\<close>

definition upper_char :: "char \<Rightarrow> char" where
  "upper_char c =
     (let n = (of_char c :: nat) in if 97 \<le> n \<and> n \<le> 122 then char_of (n - 32) else c)"

definition toUpperCase :: "string \<Rightarrow> string" where
  "toUpperCase s = map upper_char s"

definition sha1Hash :: "lib \<Rightarrow> string \<Rightarrow> string" where
  "sha1Hash l password = toUpperCase (sha1_hex l password)"

definition is_digit :: "char \<Rightarrow> bool" where
  "is_digit c = (let n = (of_char c :: nat) in 48 \<le> n \<and> n \<le> 57)"

definition digits_value :: "string \<Rightarrow> int" where
  "digits_value ds = foldl (\<lambda>acc c. acc * 10 + (int (of_char c) - 48)) 0 ds"

text \<open>
  \<^verbatim>\<open>parseInt(s, 10)\<close>: leading white space, an optional sign, then the longest run of
  digits; \<open>None\<close> stands for \<^verbatim>\<open>NaN\<close>.
\<close>

definition parseInt10 :: "string \<Rightarrow> int option" where
  "parseInt10 s =
     (let r = dropWhile is_space s;
          neg = (r \<noteq> [] \<and> hd r = CHR ''-'');
          r1 = (if r \<noteq> [] \<and> (hd r = CHR ''-'' \<or> hd r = CHR ''+'') then tl r else r);
          ds = takeWhile is_digit r1
      in if ds = [] then None
         else Some (if neg then - digits_value ds else digits_value ds))"

record BreachResult =
  breached :: bool
  br_count :: "int option"
  br_error :: "string option"

definition logError :: "string \<Rightarrow> state \<Rightarrow> state" where
  "logError message s = s\<lparr>winston := winston s @ [(''error'', message)]\<rparr>"

definition logWarning :: "string \<Rightarrow> state \<Rightarrow> state" where
  "logWarning message s = s\<lparr>winston := winston s @ [(''warn'', message)]\<rparr>"

text \<open>
  The loop over the response lines. A matching line without a colon makes
  \<^verbatim>\<open>countStr.trim()\<close> throw, which lands in the \<^verbatim>\<open>catch\<close>.
\<close>

datatype scan_result = Found "int option" | NotFound | ScanThrows

fun scan_lines :: "string \<Rightarrow> string list \<Rightarrow> scan_result" where
  "scan_lines suffix [] = NotFound"
| "scan_lines suffix (line # rest) =
     (case split_on CHR '':'' line of
        [] \<Rightarrow> scan_lines suffix rest
      | [hashSuffix] \<Rightarrow> if hashSuffix = suffix then ScanThrows else scan_lines suffix rest
      | hashSuffix # countStr # _ \<Rightarrow>
          if hashSuffix = suffix then Found (parseInt10 (trim countStr))
          else scan_lines suffix rest)"

definition breach_unverified :: BreachResult where
  "breach_unverified =
     \<lparr>breached = False, br_count = Some 0,
      br_error = Some ''Unable to verify password breach status''\<rparr>"

definition checkPasswordBreach :: "lib \<Rightarrow> world \<Rightarrow> string \<Rightarrow> state \<Rightarrow> BreachResult \<times> state" where
  "checkPasswordBreach l w password s =
     (let hash = sha1Hash l password;
          prefix = take 5 hash;
          suffix = drop 5 hash
      in case fetch w (''https://api.pwnedpasswords.com/range/'' @ prefix) of
           FetchThrows \<Rightarrow> (breach_unverified, logError ''Error checking password breach'' s)
         | FetchResponse ok st text \<Rightarrow>
             if \<not> ok then (breach_unverified, logError ''HaveIBeenPwned API error'' s)
             else (case text of
                     None \<Rightarrow> (breach_unverified, logError ''Error checking password breach'' s)
                   | Some data \<Rightarrow>
                       (case scan_lines suffix (split_on CHR 0x0A data) of
                          ScanThrows \<Rightarrow>
                            (breach_unverified, logError ''Error checking password breach'' s)
                        | Found c \<Rightarrow>
                            (\<lparr>breached = True, br_count = c, br_error = None\<rparr>,
                             logWarning ''Password found in breach database'' s)
                        | NotFound \<Rightarrow>
                            (\<lparr>breached = False, br_count = Some 0, br_error = None\<rparr>, s))))"

record BreachValidation =
  bv_valid :: bool
  bv_error :: "string option"
  bv_breachCount :: "int option"

definition validatePasswordNotBreached ::
  "lib \<Rightarrow> world \<Rightarrow> string \<Rightarrow> int \<Rightarrow> state \<Rightarrow> BreachValidation \<times> state" where
  "validatePasswordNotBreached l w password threshold s =
     (let (result, s1) = checkPasswordBreach l w password s
      in if truthy (br_error result) then
           (\<lparr>bv_valid = True, bv_error = None, bv_breachCount = None\<rparr>, s1)
         else
           (case (if breached result then br_count result else None) of
              Some c \<Rightarrow>
                if threshold \<le> c then
                  (\<lparr>bv_valid = False,
                    bv_error = Some (''This password has been exposed in '' @ toLocaleString l c @
                                     '' data breach'' @ (if 1 < c then ''es'' else []) @
                                     ''. Please choose a different password.''),
                    bv_breachCount = Some c\<rparr>, s1)
                else (\<lparr>bv_valid = True, bv_error = None, bv_breachCount = None\<rparr>, s1)
            | None \<Rightarrow> (\<lparr>bv_valid = True, bv_error = None, bv_breachCount = None\<rparr>, s1)))"

section \<open>lib/auth.ts: password strength\<close>

definition in_range :: "nat \<Rightarrow> nat \<Rightarrow> char \<Rightarrow> bool" where
  "in_range lo hi c = (lo \<le> of_char c \<and> (of_char c :: nat) \<le> hi)"

record StrengthResult =
  sv_valid :: bool
  sv_errors :: "string list"

definition validatePasswordStrength :: "string \<Rightarrow> StrengthResult" where
  "validatePasswordStrength password =
     (let errors =
            (if length password < 8 then [''Password must be at least 8 characters long''] else []) @
            (if \<not> list_ex (in_range 65 90) password
             then [''Password must contain at least one uppercase letter''] else []) @
            (if \<not> list_ex (in_range 97 122) password
             then [''Password must contain at least one lowercase letter''] else []) @
            (if \<not> list_ex (in_range 48 57) password
             then [''Password must contain at least one number''] else []) @
            (if \<not> list_ex (\<lambda>c. \<not> in_range 65 90 c \<and> \<not> in_range 97 122 c \<and> \<not> in_range 48 57 c)
                     password
             then [''Password must contain at least one special character''] else [])
      in \<lparr>sv_valid = (errors = []), sv_errors = errors\<rparr>)"

fun join :: "string \<Rightarrow> string list \<Rightarrow> string" where
  "join sep [] = []"
| "join sep [x] = x"
| "join sep (x # y # ys) = x @ sep @ join sep (y # ys)"

section \<open>repos/userRepo.ts: password reset tokens\<close>

record CreatePasswordResetTokenInput =
  pin_userId :: nat
  pin_token :: string
  pin_expiresAt :: int

definition createPasswordResetTokenData :: "world \<Rightarrow> nat \<Rightarrow> CreatePasswordResetTokenInput" where
  "createPasswordResetTokenData w userId =
     \<lparr>pin_userId = userId, pin_token = randomBytes w,
      pin_expiresAt = now w + 60 * 60 * 1000\<rparr>"

definition createPasswordResetToken ::
  "int \<Rightarrow> CreatePasswordResetTokenInput \<Rightarrow> state \<Rightarrow> PasswordResetTokenDoc \<times> state" where
  "createPasswordResetToken t input s =
     (let doc = \<lparr>prt_id = nextId s, prt_userId = pin_userId input, prt_token = pin_token input,
                 prt_expiresAt = pin_expiresAt input, used = False, prt_createdAt = t\<rparr>
      in (doc, s\<lparr>passwordResetTokens := passwordResetTokens s @ [doc],
                 nextId := Suc (nextId s)\<rparr>))"

definition findPasswordResetToken ::
  "PasswordResetTokenDoc list \<Rightarrow> string \<Rightarrow> PasswordResetTokenDoc option" where
  "findPasswordResetToken col tok = find (\<lambda>d. prt_token d = tok \<and> used d = False) col"

definition markTokenAsUsed :: "nat \<Rightarrow> state \<Rightarrow> state" where
  "markTokenAsUsed tokenId s =
     s\<lparr>passwordResetTokens :=
          updateOne (\<lambda>d. prt_id d = tokenId) (\<lambda>d. d\<lparr>used := True\<rparr>) (passwordResetTokens s)\<rparr>"

section \<open>routes/auth.ts: POST /auth/reset-password\<close>

definition reset_password_handler :: "lib \<Rightarrow> world \<Rightarrow> Request \<Rightarrow> state \<Rightarrow> Response \<times> state" where
  "reset_password_handler l w req s =
     (case nonempty_string (body_field req ''token'') of
        None \<Rightarrow> (errorHandler (badRequest ''Reset token is required''), s)
      | Some tok \<Rightarrow>
     (case nonempty_string (body_field req ''password'') of
        None \<Rightarrow> (errorHandler (badRequest ''New password is required''), s)
      | Some password \<Rightarrow>
          (let passwordValidation = validatePasswordStrength password
           in if \<not> sv_valid passwordValidation then
                (errorHandler (with_status 400 (join '', '' (sv_errors passwordValidation))), s)
              else
                (let (breachValidation, s1) = validatePasswordNotBreached l w password 1 s
                 in if \<not> bv_valid breachValidation then
                      (errorHandler (with_status 400
                         (case or_else (bv_error breachValidation)
                                 (Some ''Password has been compromised in a data breach'') of
                            Some m \<Rightarrow> m | None \<Rightarrow> [])), s1)
                    else
                      (case findPasswordResetToken (passwordResetTokens s1) tok of
                         None \<Rightarrow>
                           (errorHandler (badRequest ''Invalid or expired reset token''),
                            trackPasswordReset (now w) False None None req
                              (Some ''Invalid or expired token'') s1)
                       | Some resetToken \<Rightarrow>
                           if prt_expiresAt resetToken < now w then
                             (errorHandler (badRequest ''Reset token has expired''),
                              trackPasswordReset (now w) False (Some (prt_userId resetToken)) None
                                req (Some ''Token expired'') s1)
                           else
                             (let user = findUserById (users s1) (prt_userId resetToken);
                                  passwordHash = bcrypt_hash l password;
                                  s2 = updatePassword (now w) (prt_userId resetToken) passwordHash s1;
                                  s3 = markTokenAsUsed (prt_id resetToken) s2;
                                  s4 = trackPasswordReset (now w) True
                                         (Some (prt_userId resetToken)) (map_option u_email user)
                                         req None s3
                              in (json_ok (MessageBody ''Password has been reset successfully''),
                                  s4)))))))"

section \<open>lib/logger.ts: password-reset requests\<close>

record ResetCheck =
  rc_blocked :: bool
  rc_reason :: "string option"

definition trackPasswordResetRequest ::
  "int \<Rightarrow> string \<Rightarrow> Request \<Rightarrow> bool \<Rightarrow> state \<Rightarrow> ResetCheck \<times> state" where
  "trackPasswordResetRequest t email req userExists s =
     (let ipAddress = getClientIP req;
          userAgent = getUserAgent req;
          emailResets = getPasswordResetRequestsByEmail (auditLogs s) t email 60;
          ipResets = getPasswordResetRequestsByIP (auditLogs s) t ipAddress 60;
          totalEmailResets = emailResets + 1;
          totalIpResets = ipResets + 1;
          severity = (if 3 \<le> totalEmailResets \<or> 5 \<le> totalIpResets then critical
                      else if 2 \<le> totalEmailResets \<or> 3 \<le> totalIpResets then high
                      else low);
          s1 = logSecurityEvent t PASSWORD_RESET_REQUESTED severity
                 \<lparr>d_userId = None, d_email = Some email, d_ipAddress = Some ipAddress,
                  d_userAgent = Some userAgent,
                  d_metadata = [(''userExists'', MBool userExists),
                                (''emailResets'', MNum totalEmailResets),
                                (''ipResets'', MNum totalIpResets), (''timestamp'', MTime t)],
                  d_req = None\<rparr> s;
          maxEmailResets = 3;
          maxIpResets = 5;
          isBlocked = (maxEmailResets < totalEmailResets \<or> maxIpResets < totalIpResets)
      in if isBlocked then
           (let reason =
                  (if maxEmailResets < totalEmailResets
                   then ''Too many password reset requests for this email. Please try again in 1 hour.''
                   else ''Too many password reset requests from this location. Please try again in 1 hour.'')
            in (\<lparr>rc_blocked = True, rc_reason = Some reason\<rparr>,
                logSecurityEvent t SUSPICIOUS_ACTIVITY critical
                  \<lparr>d_userId = None, d_email = Some email, d_ipAddress = Some ipAddress,
                   d_userAgent = Some userAgent,
                   d_metadata = [(''activity'', MStr ''Password reset flooding detected''),
                                 (''emailResets'', MNum totalEmailResets),
                                 (''ipResets'', MNum totalIpResets), (''blocked'', MBool True)],
                   d_req = None\<rparr> s1))
         else if 2 \<le> totalEmailResets \<or> 3 \<le> totalIpResets then
           (\<lparr>rc_blocked = False, rc_reason = None\<rparr>,
            logSecurityEvent t SUSPICIOUS_ACTIVITY high
              \<lparr>d_userId = None, d_email = Some email, d_ipAddress = Some ipAddress,
               d_userAgent = Some userAgent,
               d_metadata = [(''activity'', MStr ''Multiple password reset requests''),
                             (''emailResets'', MNum totalEmailResets),
                             (''ipResets'', MNum totalIpResets)],
               d_req = None\<rparr> s1)
         else (\<lparr>rc_blocked = False, rc_reason = None\<rparr>, s1))"

section \<open>lib/email.ts and POST /auth/forgot-password\<close>

text \<open>
  \<^verbatim>\<open>sendPasswordResetEmail\<close> hands the message to the transporter and rethrows when
  \<^verbatim>\<open>sendMail\<close> rejects; the error it throws carries no status.
\<close>

definition sendPasswordResetEmail ::
  "world \<Rightarrow> string \<Rightarrow> string \<Rightarrow> string \<Rightarrow> state \<Rightarrow> thrown + state" where
  "sendPasswordResetEmail w email fullName resetToken s =
     (if sendMail_ok w then
        Inr (s\<lparr>outbox := outbox s @
                  [\<lparr>mail_to = email, mail_name = fullName, mail_token = resetToken\<rparr>]\<rparr>)
      else Inl (Thrown None ''Failed to send password reset email''))"

definition forgot_password_ok :: Response where
  "forgot_password_ok =
     json_ok (MessageBody
       ''If an account exists with this email, a password reset link has been sent'')"

definition forgot_password_handler :: "world \<Rightarrow> Request \<Rightarrow> state \<Rightarrow> Response \<times> state" where
  "forgot_password_handler w req s =
     (case nonblank_string (body_field req ''email'') of
        None \<Rightarrow> (errorHandler (badRequest ''Email is required''), s)
      | Some email \<Rightarrow>
          (let user = findUserByEmail (users s) email;
               (resetCheck, s1) =
                 trackPasswordResetRequest (now w) email req (user \<noteq> None) s
           in if rc_blocked resetCheck then
                (errorHandler (with_status 429
                   (case or_else (rc_reason resetCheck)
                           (Some ''Too many password reset requests'') of
                      Some m \<Rightarrow> m | None \<Rightarrow> [])), s1)
              else
                (case user of
                   None \<Rightarrow> (forgot_password_ok, s1)
                 | Some u \<Rightarrow>
                     (let tokenData = createPasswordResetTokenData w (u_id u);
                          (created, s2) = createPasswordResetToken (now w) tokenData s1
                      in case sendPasswordResetEmail w (u_email u) (u_fullName u)
                                (pin_token tokenData) s2 of
                           Inl e \<Rightarrow> (errorHandler e, s2)
                         | Inr s3 \<Rightarrow> (forgot_password_ok, s3)))))"

definition passwordResetLimiter_response :: Response where
  "passwordResetLimiter_response =
     \<lparr>status = 429,
      body = LimiterBody
        ''Too many password reset requests from this IP. Please try again after 1 hour''\<rparr>"

definition forgot_password_route :: "bool \<Rightarrow> world \<Rightarrow> Request \<Rightarrow> state \<Rightarrow> Response \<times> state" where
  "forgot_password_route limited w req s =
     (if limited then (passwordResetLimiter_response, s) else forgot_password_handler w req s)"

section \<open>Concrete libraries, requests and states\<close>

text \<open>
  Stand-ins for the libraries, used where a theorem is evaluated on a concrete input: a
  hash that can be recognised, and tokens that carry the account number.
\<close>

definition demo_lib :: lib where
  "demo_lib =
     \<lparr>bcrypt_hash = (\<lambda>p. ''h:'' @ p),
      bcrypt_compare = (\<lambda>p h. h = ''h:'' @ p),
      jwt_sign = (\<lambda>p t. ''jwt'' @ replicate (jwt_userId p) CHR ''1''),
      jwt_verify = (\<lambda>k t.
        if k = ''good'' then
          Some \<lparr>jwt_userId = 1, jwt_email = ''alice@example.com'', jwt_role = customer,
                jwt_ipAddress = Some ''10.0.0.1'', jwt_userAgent = Some ''curl''\<rparr>
        else if k = ''legacy'' then
          Some \<lparr>jwt_userId = 1, jwt_email = ''alice@example.com'', jwt_role = customer,
                jwt_ipAddress = None, jwt_userAgent = None\<rparr>
        else None),
      sha1_hex = (\<lambda>p. ''0123456789abcdef0123456789abcdef01234567''),
      toLocaleString = (\<lambda>n. ''many'')\<rparr>"

definition demo_world :: "int \<Rightarrow> world" where
  "demo_world t =
     \<lparr>now = t, randomBytes = ''c2VjdXJlLXJhbmRvbQ'',
      fetch = (\<lambda>u. FetchThrows), sendMail_ok = False\<rparr>"

definition alice :: UserDoc where
  "alice =
     \<lparr>u_id = 1, u_email = ''alice@example.com'', u_fullName = ''Alice'',
      u_passwordHash = ''h:Str0ng!Pass9'', u_createdAt = 0, u_updatedAt = 0,
      u_emailVerified = False, u_lastLogin = None, u_role = customer, locked = False,
      lockReason = None, lockedAt = None\<rparr>"

definition state0 :: state where
  "state0 =
     \<lparr>users = [alice], refreshTokens = [], passwordResetTokens = [], auditLogs = [],
      nextId = 2, winston = [], outbox = []\<rparr>"

definition login_req :: "string \<Rightarrow> string \<Rightarrow> string \<Rightarrow> Request" where
  "login_req addr email password =
     \<lparr>x_forwarded_for = None, user_agent = Some ''curl'', authorization = None,
      remoteAddress = Some addr,
      req_body = [(''email'', JStr email), (''password'', JStr password)]\<rparr>"

text \<open>Login requests handled one after the other, each at its own time.\<close>

fun run_logins :: "lib \<Rightarrow> (int \<times> Request) list \<Rightarrow> state \<Rightarrow> Response list \<times> state" where
  "run_logins l [] s = ([], s)"
| "run_logins l ((t, req) # rest) s =
     (let (r, s1) = login_route False l (demo_world t) req s;
          (rs, s2) = run_logins l rest s1
      in (r # rs, s2))"

definition token_T :: RefreshTokenDoc where
  "token_T = \<lparr>rt_id = 2, rt_userId = 1, rt_token = ''T'', rt_expiresAt = 1000, revoked = False,
              revokedAt = None, rt_createdAt = 0, rt_ipAddress = Some ''10.0.0.1'',
              rt_userAgent = Some ''curl''\<rparr>"

definition state_T :: state where
  "state_T = state0\<lparr>refreshTokens := [token_T], nextId := 3\<rparr>"

definition logout_req :: "string \<Rightarrow> Request" where
  "logout_req tok =
     \<lparr>x_forwarded_for = None, user_agent = Some ''curl'', authorization = None,
      remoteAddress = Some ''10.0.0.1'', req_body = [(''refreshToken'', JStr tok)]\<rparr>"

definition new_token :: "string \<Rightarrow> CreateRefreshTokenInput" where
  "new_token k =
     \<lparr>in_userId = 1, in_token = k, in_expiresAt = 2000, in_ipAddress = Some ''10.0.0.1'',
      in_userAgent = Some ''curl''\<rparr>"

definition world_http :: "bool \<Rightarrow> nat \<Rightarrow> string option \<Rightarrow> world" where
  "world_http ok st text =
     \<lparr>now = 0, randomBytes = ''r'', fetch = (\<lambda>u. FetchResponse ok st text), sendMail_ok = True\<rparr>"

definition reset_tok :: PasswordResetTokenDoc where
  "reset_tok =
     \<lparr>prt_id = 2, prt_userId = 1, prt_token = ''R'', prt_expiresAt = 3600000, used = False,
      prt_createdAt = 0\<rparr>"

definition state_R :: state where
  "state_R = state0\<lparr>passwordResetTokens := [reset_tok], nextId := 3\<rparr>"

definition reset_req :: "string \<Rightarrow> string \<Rightarrow> Request" where
  "reset_req tok password =
     \<lparr>x_forwarded_for = None, user_agent = Some ''curl'', authorization = None,
      remoteAddress = Some ''10.0.0.1'',
      req_body = [(''token'', JStr tok), (''password'', JStr password)]\<rparr>"



definition hourly_failures :: "(int \<times> Request) list" where
  "hourly_failures =
     map (\<lambda>i. (i * 3600000, login_req ''10.0.0.1'' ''alice@example.com'' ''guess''))
       [0, 1, 2, 3, 4, 5, 6, 7, 8, 9]"

definition bearer_req :: "string \<Rightarrow> Request" where
  "bearer_req tok =
     \<lparr>x_forwarded_for = None, user_agent = Some ''curl'',
      authorization = Some (''Bearer '' @ tok), remoteAddress = Some ''10.0.0.1'',
      req_body = []\<rparr>"

definition forgot_req :: "string \<Rightarrow> Request" where
  "forgot_req email =
     \<lparr>x_forwarded_for = None, user_agent = Some ''curl'', authorization = None,
      remoteAddress = Some ''10.0.0.1'', req_body = [(''email'', JStr email)]\<rparr>"

section \<open>Context binding of access tokens\<close>

text \<open>
  C4. For a token that \<^verbatim>\<open>jwt.verify\<close> accepts (signature, expiry, issuer, audience), with
  payload \<open>p\<close>: when \<open>p\<close> embeds both an address and a user agent (both truthy, so
  present and not the empty string), \<^verbatim>\<open>verifyAccessTokenWithContext\<close> answers
  \<open>valid = False\<close> exactly when the embedded address differs from the current one or the
  embedded user agent differs from the current one, and then returns the mismatch record
  saying which of the two changed, with the original and the current values; when nothing
  differs it answers \<open>valid = True\<close>. A token lacking either field is returned
  \<open>valid = True\<close> with no comparison made.
\<close>

theorem verify_context_binding:
  assumes "verifyAccessToken l t tok = Some p"
  shows "(truthy (jwt_ipAddress p) \<and> truthy (jwt_userAgent p) \<longrightarrow>
            (valid (verifyAccessTokenWithContext l t tok ip ua) = False \<longleftrightarrow>
               (jwt_ipAddress p \<noteq> Some ip \<or> jwt_userAgent p \<noteq> Some ua)) \<and>
            (jwt_ipAddress p \<noteq> Some ip \<or> jwt_userAgent p \<noteq> Some ua \<longrightarrow>
               verifyAccessTokenWithContext l t tok ip ua =
                 \<lparr>valid = False, payload = Some p,
                  mismatch = Some \<lparr>ipChanged = (jwt_ipAddress p \<noteq> Some ip),
                                   userAgentChanged = (jwt_userAgent p \<noteq> Some ua),
                                   originalIp = jwt_ipAddress p, currentIp = Some ip,
                                   originalUserAgent = jwt_userAgent p,
                                   currentUserAgent = Some ua\<rparr>\<rparr>) \<and>
            (jwt_ipAddress p = Some ip \<and> jwt_userAgent p = Some ua \<longrightarrow>
               verifyAccessTokenWithContext l t tok ip ua =
                 \<lparr>valid = True, payload = Some p, mismatch = None\<rparr>)) \<and>
         (\<not> truthy (jwt_ipAddress p) \<or> \<not> truthy (jwt_userAgent p) \<longrightarrow>
            verifyAccessTokenWithContext l t tok ip ua =
              \<lparr>valid = True, payload = Some p, mismatch = None\<rparr>)"
  using assms by (auto simp: verifyAccessTokenWithContext_def Let_def)

theorem verify_context_binding_witness:
  "verifyAccessToken demo_lib 0 ''good'' =
     Some \<lparr>jwt_userId = 1, jwt_email = ''alice@example.com'', jwt_role = customer,
           jwt_ipAddress = Some ''10.0.0.1'', jwt_userAgent = Some ''curl''\<rparr> \<and>
   truthy (Some ''10.0.0.1'') \<and> truthy (Some ''curl'') \<and>
   valid (verifyAccessTokenWithContext demo_lib 0 ''good'' ''10.0.0.2'' ''curl'') = False \<and>
   mismatch (verifyAccessTokenWithContext demo_lib 0 ''good'' ''10.0.0.2'' ''curl'') =
     Some \<lparr>ipChanged = True, userAgentChanged = False, originalIp = Some ''10.0.0.1'',
           currentIp = Some ''10.0.0.2'', originalUserAgent = Some ''curl'',
           currentUserAgent = Some ''curl''\<rparr> \<and>
   valid (verifyAccessTokenWithContext demo_lib 0 ''good'' ''10.0.0.1'' ''curl'') = True \<and>
   verifyAccessToken demo_lib 0 ''legacy'' =
     Some \<lparr>jwt_userId = 1, jwt_email = ''alice@example.com'', jwt_role = customer,
           jwt_ipAddress = None, jwt_userAgent = None\<rparr> \<and>
   verifyAccessTokenWithContext demo_lib 0 ''legacy'' ''10.0.0.2'' ''wget'' =
     \<lparr>valid = True,
      payload = Some \<lparr>jwt_userId = 1, jwt_email = ''alice@example.com'', jwt_role = customer,
                     jwt_ipAddress = None, jwt_userAgent = None\<rparr>,
      mismatch = None\<rparr>"
proof -
  have g: "verifyAccessToken demo_lib 0 ''good'' =
     Some \<lparr>jwt_userId = 1, jwt_email = ''alice@example.com'', jwt_role = customer,
           jwt_ipAddress = Some ''10.0.0.1'', jwt_userAgent = Some ''curl''\<rparr>"
    by (simp add: verifyAccessToken_def demo_lib_def)
  have lg: "verifyAccessToken demo_lib 0 ''legacy'' =
     Some \<lparr>jwt_userId = 1, jwt_email = ''alice@example.com'', jwt_role = customer,
           jwt_ipAddress = None, jwt_userAgent = None\<rparr>"
    by (simp add: verifyAccessToken_def demo_lib_def)
  show ?thesis
    using verify_context_binding [OF g, of "''10.0.0.2''" "''curl''"]
      verify_context_binding [OF g, of "''10.0.0.1''" "''curl''"]
      verify_context_binding [OF lg, of "''10.0.0.2''" "''wget''"] g lg
    by (simp add: truthy_def)
qed

section \<open>Facts about \<open>updateOne\<close>\<close>

lemma updateOne_idem:
  "(\<And>x. P x \<Longrightarrow> P (f x)) \<Longrightarrow> (\<And>x. g (f x) = g x) \<Longrightarrow>
   updateOne P g (updateOne P f xs) = updateOne P g xs"
  by (induction xs) auto

lemma updateOne_none: "\<forall>x\<in>set xs. \<not> P x \<Longrightarrow> updateOne P f xs = xs"
  by (induction xs) auto

lemma updateOne_map:
  "(\<And>x. h (f x) = h x) \<Longrightarrow> map h (updateOne P f xs) = map h xs"
  by (induction xs) auto

lemma find_updateOne_None:
  "distinct (map k xs) \<Longrightarrow> (\<And>x. k (f x) = k x) \<Longrightarrow> (\<And>x. \<not> Q (f x)) \<Longrightarrow>
   (\<And>x. Q x \<Longrightarrow> k x = a) \<Longrightarrow>
   find Q (updateOne (\<lambda>x. k x = a) f xs) = None"
proof (induction xs)
  case Nil
  then show ?case by simp
next
  case (Cons x xs)
  show ?case
  proof (cases "k x = a")
    case True
    have "\<forall>y\<in>set xs. \<not> Q y"
    proof
      fix y assume "y \<in> set xs"
      from Cons.prems(1) have "k x \<notin> k ` set xs" by simp
      with True \<open>y \<in> set xs\<close> have "k y \<noteq> a" by blast
      with Cons.prems(4) show "\<not> Q y" by blast
    qed
    then have "find Q xs = None" by (simp add: find_None_iff)
    with True Cons.prems(3) show ?thesis by simp
  next
    case False
    with Cons.prems(4) have "\<not> Q x" by blast
    moreover have "find Q (updateOne (\<lambda>x. k x = a) f xs) = None"
      using Cons.IH Cons.prems by simp
    ultimately show ?thesis using False by simp
  qed
qed

lemma find_Some_first:
  "find P xs = Some x \<Longrightarrow> x \<in> set xs \<and> P x"
  by (induction xs) (auto split: if_splits)

lemma updateOne_key_hit:
  "distinct (map k xs) \<Longrightarrow> x \<in> set xs \<Longrightarrow> (\<And>y. k (f y) = k y) \<Longrightarrow>
   y \<in> set (updateOne (\<lambda>d. k d = k x) f xs) \<Longrightarrow> y = f x \<or> (y \<in> set xs \<and> k y \<noteq> k x)"
proof (induction xs)
  case Nil
  then show ?case by simp
next
  case (Cons a xs)
  show ?case
  proof (cases "k a = k x")
    case True
    from Cons.prems(1) have nk: "k a \<notin> k ` set xs" by simp
    with True Cons.prems(2) have ax: "a = x" by (metis image_eqI set_ConsD)
    from Cons.prems(4) True have "y = f a \<or> y \<in> set xs" by simp
    then show ?thesis
    proof
      assume "y = f a" with ax show ?thesis by simp
    next
      assume "y \<in> set xs"
      with nk True have "k y \<noteq> k x" by (metis image_eqI)
      with \<open>y \<in> set xs\<close> show ?thesis by simp
    qed
  next
    case False
    with Cons.prems(2) have xin: "x \<in> set xs" by auto
    from Cons.prems(4) False have "y = a \<or> y \<in> set (updateOne (\<lambda>d. k d = k x) f xs)" by simp
    then show ?thesis
    proof
      assume "y = a" with False show ?thesis by simp
    next
      assume "y \<in> set (updateOne (\<lambda>d. k d = k x) f xs)"
      with Cons.IH [OF _ xin Cons.prems(3)] Cons.prems(1) show ?thesis by auto
    qed
  qed
qed

lemma updateOne_key_present:
  "x \<in> set xs \<Longrightarrow> f x \<in> set (updateOne (\<lambda>d. k d = k x) f xs) \<or>
     (\<exists>a\<in>set xs. a \<noteq> x \<and> k a = k x)"
  by (induction xs) auto

section \<open>What the trackers leave alone\<close>

lemma logSecurityEvent_frame:
  "users (logSecurityEvent t ev sev d s) = users s \<and>
   refreshTokens (logSecurityEvent t ev sev d s) = refreshTokens s \<and>
   passwordResetTokens (logSecurityEvent t ev sev d s) = passwordResetTokens s \<and>
   outbox (logSecurityEvent t ev sev d s) = outbox s"
  by (simp add: logSecurityEvent_def createAuditLog_def Let_def)

lemma trackPasswordReset_frame:
  "users (trackPasswordReset t ok uid em req reason s) = users s \<and>
   refreshTokens (trackPasswordReset t ok uid em req reason s) = refreshTokens s \<and>
   passwordResetTokens (trackPasswordReset t ok uid em req reason s) = passwordResetTokens s \<and>
   outbox (trackPasswordReset t ok uid em req reason s) = outbox s"
  by (simp add: trackPasswordReset_def logSecurityEvent_frame)

lemma checkPasswordBreach_frame:
  "passwordResetTokens (snd (checkPasswordBreach l w pw s)) = passwordResetTokens s \<and>
   users (snd (checkPasswordBreach l w pw s)) = users s"
  by (simp add: checkPasswordBreach_def Let_def logError_def logWarning_def
      split: fetch_result.splits option.splits scan_result.splits)

lemma validatePasswordNotBreached_frame:
  "passwordResetTokens (snd (validatePasswordNotBreached l w pw th s)) = passwordResetTokens s \<and>
   users (snd (validatePasswordNotBreached l w pw th s)) = users s"
  using checkPasswordBreach_frame [of l w pw s]
  by (simp add: validatePasswordNotBreached_def Let_def split_beta split: option.splits)

section \<open>Logout and revocation\<close>

text \<open>
  C10, as the code has it. POST /auth/logout answers with the success message for every
  non-empty string refresh token, issued or not, and its only effect is
  \<^verbatim>\<open>revokeRefreshToken\<close>. Revoking a token that no stored record carries leaves the state
  unchanged. Revoking the same token a second time gives the state of a single revocation
  made at the time of the second call: \<^verbatim>\<open>revokedAt\<close> is overwritten, and apart from
  \<^verbatim>\<open>revokedAt\<close> the records are those left by the first revocation.
\<close>

theorem revoke_twice:
  "(nonempty_string (body_field req ''refreshToken'') = Some tok \<longrightarrow>
      fst (logout_handler w req s) = json_ok (MessageBody ''Logged out successfully'') \<and>
      snd (logout_handler w req s) = revokeRefreshToken (now w) tok s) \<and>
   revokeRefreshToken t2 tok (revokeRefreshToken t1 tok s) = revokeRefreshToken t2 tok s \<and>
   map (\<lambda>d. d\<lparr>revokedAt := None\<rparr>)
       (refreshTokens (revokeRefreshToken t2 tok (revokeRefreshToken t1 tok s))) =
   map (\<lambda>d. d\<lparr>revokedAt := None\<rparr>) (refreshTokens (revokeRefreshToken t1 tok s)) \<and>
   ((\<forall>d\<in>set (refreshTokens s). rt_token d \<noteq> tok) \<longrightarrow> revokeRefreshToken t1 tok s = s)"
proof -
  have a: "revokeRefreshToken t2 tok (revokeRefreshToken t1 tok s) = revokeRefreshToken t2 tok s"
    by (simp add: revokeRefreshToken_def updateOne_idem)
  have m: "\<And>t. map (\<lambda>d. d\<lparr>revokedAt := None\<rparr>) (refreshTokens (revokeRefreshToken t tok s)) =
     map (\<lambda>d. d\<lparr>revokedAt := None\<rparr>)
       (updateOne (\<lambda>d. rt_token d = tok) (\<lambda>d. d\<lparr>revoked := True\<rparr>) (refreshTokens s))"
  proof -
    fix t
    have "map (\<lambda>d. d\<lparr>revokedAt := None\<rparr>)
            (updateOne (\<lambda>d. rt_token d = tok) (\<lambda>d. d\<lparr>revoked := True, revokedAt := Some t\<rparr>) xs) =
          map (\<lambda>d. d\<lparr>revokedAt := None\<rparr>)
            (updateOne (\<lambda>d. rt_token d = tok) (\<lambda>d. d\<lparr>revoked := True\<rparr>) xs)"
      for xs :: "RefreshTokenDoc list"
      by (induction xs) auto
    then show "map (\<lambda>d. d\<lparr>revokedAt := None\<rparr>) (refreshTokens (revokeRefreshToken t tok s)) =
     map (\<lambda>d. d\<lparr>revokedAt := None\<rparr>)
       (updateOne (\<lambda>d. rt_token d = tok) (\<lambda>d. d\<lparr>revoked := True\<rparr>) (refreshTokens s))"
      by (simp add: revokeRefreshToken_def)
  qed
  have b: "map (\<lambda>d. d\<lparr>revokedAt := None\<rparr>)
       (refreshTokens (revokeRefreshToken t2 tok (revokeRefreshToken t1 tok s))) =
   map (\<lambda>d. d\<lparr>revokedAt := None\<rparr>) (refreshTokens (revokeRefreshToken t1 tok s))"
    by (simp only: a m)
  have c: "(\<forall>d\<in>set (refreshTokens s). rt_token d \<noteq> tok) \<longrightarrow> revokeRefreshToken t1 tok s = s"
    by (simp add: revokeRefreshToken_def updateOne_none)
  have d: "nonempty_string (body_field req ''refreshToken'') = Some tok \<longrightarrow>
      fst (logout_handler w req s) = json_ok (MessageBody ''Logged out successfully'') \<and>
      snd (logout_handler w req s) = revokeRefreshToken (now w) tok s"
    by (simp add: logout_handler_def)
  from a b c d show ?thesis by blast
qed

theorem revoke_twice_witness:
  "nonempty_string (body_field (logout_req ''never-issued'') ''refreshToken'') = Some ''never-issued'' \<and>
   map rt_token (refreshTokens state_T) = [''T''] \<and>
   fst (logout_handler (demo_world 5) (logout_req ''never-issued'') state_T) =
     json_ok (MessageBody ''Logged out successfully'') \<and>
   snd (logout_handler (demo_world 5) (logout_req ''never-issued'') state_T) = state_T \<and>
   revokeRefreshToken 2 ''T'' (revokeRefreshToken 1 ''T'' state_T) = revokeRefreshToken 2 ''T'' state_T \<and>
   map revoked (refreshTokens (revokeRefreshToken 2 ''T'' state_T)) = [True]"
proof -
  have h1: "nonempty_string (body_field (logout_req ''never-issued'') ''refreshToken'') = Some ''never-issued''"
    by (simp add: nonempty_string_def body_field_def logout_req_def)
  have h2: "\<forall>d\<in>set (refreshTokens state_T). rt_token d \<noteq> ''never-issued''"
    by (simp add: state_T_def token_T_def)
  have n: "now (demo_world 5) = 5" by (simp add: demo_world_def)
  have r: "map revoked (refreshTokens (revokeRefreshToken 2 ''T'' state_T)) = [True]"
    by (simp add: revokeRefreshToken_def state_T_def token_T_def)
  show ?thesis
    using revoke_twice [where req = "logout_req ''never-issued''" and tok = "''never-issued''"
        and w = "demo_world 5" and s = state_T and ?t1.0 = 5 and ?t2.0 = 5]
      revoke_twice [where req = "logout_req ''never-issued''" and tok = "''T''"
        and w = "demo_world 5" and s = state_T and ?t1.0 = 1 and ?t2.0 = 2]
      h1 h2 n r
    by (simp add: state_T_def token_T_def)
qed

text \<open>
  C10 as stated fails: a second revocation at a later time does not leave the state of the
  first, because the filter is the token alone and \<^verbatim>\<open>revokedAt\<close> is set again.
\<close>

theorem revoke_twice_counterexample:
  "revokeRefreshToken 2 ''T'' (revokeRefreshToken 1 ''T'' state_T) \<noteq>
   revokeRefreshToken 1 ''T'' state_T"
  by (simp add: revokeRefreshToken_def state_T_def token_T_def state0_def)

section \<open>Refresh-token rotation\<close>

text \<open>
  The three steps of a rotation, run with nothing in between, are
  \<^verbatim>\<open>rotateRefreshToken\<close>.
\<close>

lemma rot_step_sequential:
  "(let (k1, s1) = rot_step t (RotFind oldToken newTokenData) s;
        (k2, s2) = rot_step t k1 s1;
        (k3, s3) = rot_step t k2 s2
    in (k3, s3)) =
   (RotDone (fst (rotateRefreshToken t oldToken newTokenData s)),
    snd (rotateRefreshToken t oldToken newTokenData s))"
  by (cases "findValidRefreshToken (refreshTokens s) t oldToken")
     (simp_all add: rotateRefreshToken_def Let_def split_beta)

text \<open>
  C2, for calls that run one after the other. When no stored record carries the old token
  unrevoked and unexpired, \<^verbatim>\<open>rotateRefreshToken\<close> returns null and leaves the state as it
  was, so no token is created. When such a record exists, the first record carrying the
  old token is revoked, and the replacement is appended and returned. When moreover token
  values are unique in the collection (the index the schema documents) and the replacement
  differs from the old token, any later rotation of the old token on the resulting state
  returns null and changes nothing.
\<close>

theorem rotate_sequential:
  "((\<forall>d\<in>set (refreshTokens s). \<not> (rt_token d = oldToken \<and> \<not> revoked d \<and> t < rt_expiresAt d)) \<longrightarrow>
      rotateRefreshToken t oldToken newTokenData s = (None, s)) \<and>
   ((\<exists>d\<in>set (refreshTokens s). rt_token d = oldToken \<and> \<not> revoked d \<and> t < rt_expiresAt d) \<longrightarrow>
      (let created = \<lparr>rt_id = nextId s, rt_userId = in_userId newTokenData,
                      rt_token = in_token newTokenData,
                      rt_expiresAt = in_expiresAt newTokenData, revoked = False,
                      revokedAt = None, rt_createdAt = t,
                      rt_ipAddress = in_ipAddress newTokenData,
                      rt_userAgent = in_userAgent newTokenData\<rparr>
       in fst (rotateRefreshToken t oldToken newTokenData s) = Some created \<and>
          refreshTokens (snd (rotateRefreshToken t oldToken newTokenData s)) =
            updateOne (\<lambda>d. rt_token d = oldToken) (\<lambda>d. d\<lparr>revoked := True, revokedAt := Some t\<rparr>)
              (refreshTokens s) @ [created]) \<and>
      (distinct (map rt_token (refreshTokens s)) \<and> in_token newTokenData \<noteq> oldToken \<longrightarrow>
         fst (rotateRefreshToken t' oldToken newTokenData'
                (snd (rotateRefreshToken t oldToken newTokenData s))) = None \<and>
         snd (rotateRefreshToken t' oldToken newTokenData'
                (snd (rotateRefreshToken t oldToken newTokenData s))) =
           snd (rotateRefreshToken t oldToken newTokenData s)))"
proof (intro conjI impI)
  assume "\<forall>d\<in>set (refreshTokens s). \<not> (rt_token d = oldToken \<and> \<not> revoked d \<and> t < rt_expiresAt d)"
  then have "findValidRefreshToken (refreshTokens s) t oldToken = None"
    by (auto simp: findValidRefreshToken_def find_None_iff)
  then show "rotateRefreshToken t oldToken newTokenData s = (None, s)"
    by (simp add: rotateRefreshToken_def)
next
  assume ex: "\<exists>d\<in>set (refreshTokens s). rt_token d = oldToken \<and> \<not> revoked d \<and> t < rt_expiresAt d"
  then have "findValidRefreshToken (refreshTokens s) t oldToken \<noteq> None"
    by (auto simp: findValidRefreshToken_def find_None_iff)
  then obtain d where d: "findValidRefreshToken (refreshTokens s) t oldToken = Some d" by blast
  then show "let created = \<lparr>rt_id = nextId s, rt_userId = in_userId newTokenData,
                      rt_token = in_token newTokenData,
                      rt_expiresAt = in_expiresAt newTokenData, revoked = False,
                      revokedAt = None, rt_createdAt = t,
                      rt_ipAddress = in_ipAddress newTokenData,
                      rt_userAgent = in_userAgent newTokenData\<rparr>
       in fst (rotateRefreshToken t oldToken newTokenData s) = Some created \<and>
          refreshTokens (snd (rotateRefreshToken t oldToken newTokenData s)) =
            updateOne (\<lambda>d. rt_token d = oldToken) (\<lambda>d. d\<lparr>revoked := True, revokedAt := Some t\<rparr>)
              (refreshTokens s) @ [created]"
    by (simp add: rotateRefreshToken_def Let_def createRefreshToken_def revokeRefreshToken_def)
next
  assume ex: "\<exists>d\<in>set (refreshTokens s). rt_token d = oldToken \<and> \<not> revoked d \<and> t < rt_expiresAt d"
    and dn: "distinct (map rt_token (refreshTokens s)) \<and> in_token newTokenData \<noteq> oldToken"
  from ex have "findValidRefreshToken (refreshTokens s) t oldToken \<noteq> None"
    by (auto simp: findValidRefreshToken_def find_None_iff)
  then obtain d where d: "findValidRefreshToken (refreshTokens s) t oldToken = Some d" by blast
  let ?s' = "snd (rotateRefreshToken t oldToken newTokenData s)"
  have rt: "refreshTokens ?s' =
      updateOne (\<lambda>d. rt_token d = oldToken) (\<lambda>d. d\<lparr>revoked := True, revokedAt := Some t\<rparr>)
        (refreshTokens s) @
      [\<lparr>rt_id = nextId s, rt_userId = in_userId newTokenData, rt_token = in_token newTokenData,
        rt_expiresAt = in_expiresAt newTokenData, revoked = False, revokedAt = None,
        rt_createdAt = t, rt_ipAddress = in_ipAddress newTokenData,
        rt_userAgent = in_userAgent newTokenData\<rparr>]"
    using d by (simp add: rotateRefreshToken_def Let_def createRefreshToken_def revokeRefreshToken_def)
  have "find (\<lambda>d. rt_token d = oldToken \<and> revoked d = False \<and> t' < rt_expiresAt d)
          (updateOne (\<lambda>d. rt_token d = oldToken) (\<lambda>d. d\<lparr>revoked := True, revokedAt := Some t\<rparr>)
             (refreshTokens s)) = None"
    using dn by (intro find_updateOne_None [where k = rt_token]) auto
  then have "\<forall>x\<in>set (updateOne (\<lambda>d. rt_token d = oldToken)
                     (\<lambda>d. d\<lparr>revoked := True, revokedAt := Some t\<rparr>) (refreshTokens s)).
           \<not> (rt_token x = oldToken \<and> revoked x = False \<and> t' < rt_expiresAt x)"
    by (simp add: find_None_iff)
  then have none: "findValidRefreshToken (refreshTokens ?s') t' oldToken = None"
    using dn unfolding rt findValidRefreshToken_def find_None_iff by auto
  show "fst (rotateRefreshToken t' oldToken newTokenData' ?s') = None"
    using none by (simp add: rotateRefreshToken_def)
  show "snd (rotateRefreshToken t' oldToken newTokenData' ?s') = ?s'"
    using none by (simp add: rotateRefreshToken_def)
qed

theorem rotate_sequential_witness:
  "fst (rotateRefreshToken 10 ''T'' (new_token ''T2'') state_T) \<noteq> None \<and>
   map rt_token (refreshTokens (snd (rotateRefreshToken 10 ''T'' (new_token ''T2'') state_T))) =
     [''T'', ''T2''] \<and>
   map revoked (refreshTokens (snd (rotateRefreshToken 10 ''T'' (new_token ''T2'') state_T))) =
     [True, False] \<and>
   fst (rotateRefreshToken 11 ''T'' (new_token ''T3'')
          (snd (rotateRefreshToken 10 ''T'' (new_token ''T2'') state_T))) = None \<and>
   rotateRefreshToken 10 ''unknown'' (new_token ''T2'') state_T = (None, state_T)"
proof -
  have ex: "\<exists>d\<in>set (refreshTokens state_T). rt_token d = ''T'' \<and> \<not> revoked d \<and> 10 < rt_expiresAt d"
    by (simp add: state_T_def token_T_def)
  have dn: "distinct (map rt_token (refreshTokens state_T)) \<and> in_token (new_token ''T2'') \<noteq> ''T''"
    by (simp add: state_T_def token_T_def new_token_def)
  have un: "\<forall>d\<in>set (refreshTokens state_T).
      \<not> (rt_token d = ''unknown'' \<and> \<not> revoked d \<and> 10 < rt_expiresAt d)"
    by (simp add: state_T_def token_T_def)
  show ?thesis
    using rotate_sequential [where s = state_T and oldToken = "''T''" and t = 10
        and newTokenData = "new_token ''T2''" and t' = 11 and newTokenData' = "new_token ''T3''"]
      rotate_sequential [where s = state_T and oldToken = "''unknown''" and t = 10
        and newTokenData = "new_token ''T2''" and t' = 11 and newTokenData' = "new_token ''T3''"]
      ex dn un
    by (simp add: Let_def state_T_def token_T_def new_token_def state0_def)
qed

text \<open>
  C2 as stated also promises one winner among concurrent rotations. The code checks, then
  revokes without a condition: when both checks run before either revocation, both
  rotations return a new token and both new tokens are left unrevoked.
\<close>

theorem rotate_concurrent_counterexample:
  "map rot_succeeded
     (fst (run_schedule [(0, 10), (1, 10), (0, 11), (1, 11), (0, 12), (1, 12)]
             [RotFind ''T'' (new_token ''T2''), RotFind ''T'' (new_token ''T3'')] state_T)) =
   [True, True] \<and>
   map (\<lambda>d. (rt_token d, revoked d))
     (refreshTokens
       (snd (run_schedule [(0, 10), (1, 10), (0, 11), (1, 11), (0, 12), (1, 12)]
               [RotFind ''T'' (new_token ''T2''), RotFind ''T'' (new_token ''T3'')] state_T))) =
   [(''T'', True), (''T2'', False), (''T3'', False)]"
  by (simp add: state_T_def token_T_def state0_def new_token_def findValidRefreshToken_def
      revokeRefreshToken_def createRefreshToken_def Let_def)

section \<open>The breach check fails open\<close>

text \<open>
  C6. When the lookup rejects, or answers with a response that is not OK,
  \<^verbatim>\<open>checkPasswordBreach\<close> reports \<open>breached = False\<close> with the error marker and writes
  one error line to the log, and \<^verbatim>\<open>validatePasswordNotBreached\<close>, for every threshold,
  returns \<open>valid = True\<close> with no error, so the caller goes on.
\<close>

theorem breach_check_fails_open:
  assumes "fetch w (''https://api.pwnedpasswords.com/range/'' @ take 5 (sha1Hash l password)) = FetchThrows \<or>
           (\<exists>st text. fetch w (''https://api.pwnedpasswords.com/range/'' @ take 5 (sha1Hash l password)) =
                         FetchResponse False st text)"
  shows "breached (fst (checkPasswordBreach l w password s)) = False \<and>
         br_error (fst (checkPasswordBreach l w password s)) =
           Some ''Unable to verify password breach status'' \<and>
         bv_valid (fst (validatePasswordNotBreached l w password threshold s)) = True \<and>
         bv_error (fst (validatePasswordNotBreached l w password threshold s)) = None \<and>
         (\<exists>message. winston (snd (checkPasswordBreach l w password s)) =
                      winston s @ [(''error'', message)]) \<and>
         snd (validatePasswordNotBreached l w password threshold s) =
           snd (checkPasswordBreach l w password s)"
proof -
  from assms have "checkPasswordBreach l w password s =
      (breach_unverified, logError ''Error checking password breach'' s) \<or>
    checkPasswordBreach l w password s =
      (breach_unverified, logError ''HaveIBeenPwned API error'' s)"
    by (auto simp: checkPasswordBreach_def Let_def)
  then show ?thesis
    by (auto simp: validatePasswordNotBreached_def breach_unverified_def logError_def truthy_def)
qed

theorem breach_check_fails_open_witness:
  "fetch (demo_world 0) (''https://api.pwnedpasswords.com/range/'' @ take 5 (sha1Hash demo_lib ''Str0ng!Pass9'')) =
     FetchThrows \<and>
   fetch (world_http False 503 None) (''https://api.pwnedpasswords.com/range/'' @ take 5 (sha1Hash demo_lib ''Str0ng!Pass9'')) =
     FetchResponse False 503 None \<and>
   validatePasswordNotBreached demo_lib (demo_world 0) ''Str0ng!Pass9'' 1 state0 =
     (\<lparr>bv_valid = True, bv_error = None, bv_breachCount = None\<rparr>,
      state0\<lparr>winston := [(''error'', ''Error checking password breach'')]\<rparr>) \<and>
   validatePasswordNotBreached demo_lib (world_http False 503 None) ''Str0ng!Pass9'' 1 state0 =
     (\<lparr>bv_valid = True, bv_error = None, bv_breachCount = None\<rparr>,
      state0\<lparr>winston := [(''error'', ''HaveIBeenPwned API error'')]\<rparr>)"
proof -
  have h1: "fetch (demo_world 0) (''https://api.pwnedpasswords.com/range/'' @ take 5 (sha1Hash demo_lib ''Str0ng!Pass9'')) =
     FetchThrows"
    by (simp add: demo_world_def)
  have h2: "fetch (world_http False 503 None) (''https://api.pwnedpasswords.com/range/'' @ take 5 (sha1Hash demo_lib ''Str0ng!Pass9'')) =
     FetchResponse False 503 None"
    by (simp add: world_http_def)
  have e1: "validatePasswordNotBreached demo_lib (demo_world 0) ''Str0ng!Pass9'' 1 state0 =
     (\<lparr>bv_valid = True, bv_error = None, bv_breachCount = None\<rparr>,
      state0\<lparr>winston := [(''error'', ''Error checking password breach'')]\<rparr>)"
    using h1 by (simp add: validatePasswordNotBreached_def checkPasswordBreach_def Let_def
        breach_unverified_def truthy_def logError_def state0_def)
  have e2: "validatePasswordNotBreached demo_lib (world_http False 503 None) ''Str0ng!Pass9'' 1 state0 =
     (\<lparr>bv_valid = True, bv_error = None, bv_breachCount = None\<rparr>,
      state0\<lparr>winston := [(''error'', ''HaveIBeenPwned API error'')]\<rparr>)"
    using h2 by (simp add: validatePasswordNotBreached_def checkPasswordBreach_def Let_def
        breach_unverified_def truthy_def logError_def state0_def)
  show ?thesis
    using breach_check_fails_open [where w = "demo_world 0" and l = demo_lib
        and password = "''Str0ng!Pass9''" and s = state0 and threshold = 1]
      breach_check_fails_open [where w = "world_http False 503 None" and l = demo_lib
        and password = "''Str0ng!Pass9''" and s = state0 and threshold = 1]
      h1 h2 e1 e2
    by simp
qed

section \<open>Password reset tokens are used once\<close>

text \<open>What a successful reset leaves in the token collection.\<close>

lemma reset_success_tokens:
  assumes "reset_password_handler l w req s = (r, s')" and "status r = 200"
  shows "\<exists>tok d. nonempty_string (body_field req ''token'') = Some tok \<and>
           findPasswordResetToken (passwordResetTokens s) tok = Some d \<and>
           passwordResetTokens s' =
             updateOne (\<lambda>x. prt_id x = prt_id d) (\<lambda>x. x\<lparr>used := True\<rparr>) (passwordResetTokens s)"
  using assms validatePasswordNotBreached_frame [of l w _ 1 s]
  by (auto simp: reset_password_handler_def Let_def split_beta badRequest_def with_status_def
      json_ok_def trackPasswordReset_frame markTokenAsUsed_def updatePassword_def
      split: option.splits if_splits)

text \<open>
  C5. Take a token collection with unique ids and unique token values, and a
  POST /auth/reset-password with token \<open>tok\<close> that succeeds. Afterwards a record with that
  token exists and is flagged used, and every record with that token is flagged used.
  \<^verbatim>\<open>findPasswordResetToken\<close> never returns a used record, on any collection. So any
  later reset with the same token, at any time and with any password, is answered with
  400, and when its password passes the strength and breach checks the answer is the
  invalid-token error.
\<close>

theorem reset_token_single_use:
  assumes ids: "distinct (map prt_id (passwordResetTokens s))"
    and toks: "distinct (map prt_token (passwordResetTokens s))"
    and run: "reset_password_handler l w req s = (r, s')"
    and ok: "status r = 200"
    and tok: "nonempty_string (body_field req ''token'') = Some tok"
  shows "(\<exists>d\<in>set (passwordResetTokens s'). prt_token d = tok \<and> used d) \<and>
         (\<forall>d\<in>set (passwordResetTokens s'). prt_token d = tok \<longrightarrow> used d) \<and>
         (\<forall>col k d. findPasswordResetToken col k = Some d \<longrightarrow> used d = False) \<and>
         (nonempty_string (body_field req' ''token'') = Some tok \<longrightarrow>
            status (fst (reset_password_handler l' w' req' s')) = 400 \<and>
            (\<forall>password.
               nonempty_string (body_field req' ''password'') = Some password \<and>
               sv_valid (validatePasswordStrength password) \<and>
               bv_valid (fst (validatePasswordNotBreached l' w' password 1 s')) \<longrightarrow>
               fst (reset_password_handler l' w' req' s') =
                 errorHandler (badRequest ''Invalid or expired reset token'')))"
proof -
  from reset_success_tokens [OF run ok] tok obtain d where
    f: "findPasswordResetToken (passwordResetTokens s) tok = Some d" and
    u: "passwordResetTokens s' =
          updateOne (\<lambda>x. prt_id x = prt_id d) (\<lambda>x. x\<lparr>used := True\<rparr>) (passwordResetTokens s)"
    by auto
  from f have din: "d \<in> set (passwordResetTokens s)" and dt: "prt_token d = tok"
    using find_Some_first [of "\<lambda>d. prt_token d = tok \<and> used d = False" "passwordResetTokens s" d]
    by (simp_all add: findPasswordResetToken_def)
  have uniq: "\<And>a. a \<in> set (passwordResetTokens s) \<Longrightarrow> prt_id a = prt_id d \<Longrightarrow> a = d"
    using ids din by (meson distinct_map inj_onD)
  have uniqt: "\<And>a. a \<in> set (passwordResetTokens s) \<Longrightarrow> prt_token a = tok \<Longrightarrow> a = d"
    using toks din dt by (metis distinct_map inj_onD)
  have present: "d\<lparr>used := True\<rparr> \<in> set (passwordResetTokens s')"
    using updateOne_key_present [OF din, of "\<lambda>x. x\<lparr>used := True\<rparr>" prt_id] uniq
    unfolding u by blast
  have c1: "\<exists>x\<in>set (passwordResetTokens s'). prt_token x = tok \<and> used x"
    using present dt by (intro bexI [of _ "d\<lparr>used := True\<rparr>"]) simp_all
  have c2: "\<forall>y\<in>set (passwordResetTokens s'). prt_token y = tok \<longrightarrow> used y"
  proof (intro ballI impI)
    fix y assume yin: "y \<in> set (passwordResetTokens s')" and yt: "prt_token y = tok"
    from updateOne_key_hit [OF ids din _ yin [unfolded u], of ]
    have "y = d\<lparr>used := True\<rparr> \<or> (y \<in> set (passwordResetTokens s) \<and> prt_id y \<noteq> prt_id d)"
      by simp
    then show "used y"
    proof
      assume "y = d\<lparr>used := True\<rparr>" then show ?thesis by simp
    next
      assume a: "y \<in> set (passwordResetTokens s) \<and> prt_id y \<noteq> prt_id d"
      with yt uniqt have "y = d" by blast
      with a show ?thesis by simp
    qed
  qed
  have c3: "\<forall>col k x. findPasswordResetToken col k = Some x \<longrightarrow> used x = False"
    using find_Some_first unfolding findPasswordResetToken_def by fastforce
  have none: "findPasswordResetToken (passwordResetTokens s') tok = None"
    using c2 by (auto simp: findPasswordResetToken_def find_None_iff)
  have c4: "nonempty_string (body_field req' ''token'') = Some tok \<longrightarrow>
            status (fst (reset_password_handler l' w' req' s')) = 400 \<and>
            (\<forall>password.
               nonempty_string (body_field req' ''password'') = Some password \<and>
               sv_valid (validatePasswordStrength password) \<and>
               bv_valid (fst (validatePasswordNotBreached l' w' password 1 s')) \<longrightarrow>
               fst (reset_password_handler l' w' req' s') =
                 errorHandler (badRequest ''Invalid or expired reset token''))"
    using none validatePasswordNotBreached_frame [of l' w' _ 1 s']
    by (auto simp: reset_password_handler_def Let_def split_beta badRequest_def with_status_def
        split: option.splits)
  from c1 c2 c3 c4 show ?thesis by blast
qed

theorem reset_token_single_use_witness:
  "status (fst (reset_password_handler demo_lib (world_http True 200 (Some []))
                  (reset_req ''R'' ''N3w!Passw0rd'') state_R)) = 200 \<and>
   map used (passwordResetTokens
     (snd (reset_password_handler demo_lib (world_http True 200 (Some []))
             (reset_req ''R'' ''N3w!Passw0rd'') state_R))) = [True] \<and>
   fst (reset_password_handler demo_lib (world_http True 200 (Some []))
          (reset_req ''R'' ''An0ther!Passw0rd'')
          (snd (reset_password_handler demo_lib (world_http True 200 (Some []))
                  (reset_req ''R'' ''N3w!Passw0rd'') state_R))) =
     \<lparr>status = 400, body = ErrorBody ''Invalid or expired reset token''\<rparr>"
proof -
  let ?w = "world_http True 200 (Some [])"
  let ?first = "reset_password_handler demo_lib ?w (reset_req ''R'' ''N3w!Passw0rd'') state_R"
  have ids: "distinct (map prt_id (passwordResetTokens state_R))"
    by (simp add: state_R_def)
  have toks: "distinct (map prt_token (passwordResetTokens state_R))"
    by (simp add: state_R_def)
  have run: "?first = (fst ?first, snd ?first)" by simp
  have ok: "status (fst ?first) = 200" by code_simp
  have tok: "nonempty_string (body_field (reset_req ''R'' ''N3w!Passw0rd'') ''token'') = Some ''R''"
    by code_simp
  have tok': "nonempty_string (body_field (reset_req ''R'' ''An0ther!Passw0rd'') ''token'') = Some ''R''"
    by code_simp
  have pw': "nonempty_string (body_field (reset_req ''R'' ''An0ther!Passw0rd'') ''password'') =
      Some ''An0ther!Passw0rd''"
    by code_simp
  have sv: "sv_valid (validatePasswordStrength ''An0ther!Passw0rd'')" by code_simp
  have bv: "bv_valid (fst (validatePasswordNotBreached demo_lib ?w ''An0ther!Passw0rd'' 1 (snd ?first)))"
    by code_simp
  have us: "map used (passwordResetTokens (snd ?first)) = [True]" by code_simp
  show ?thesis
    using reset_token_single_use [OF ids toks run ok tok,
        where req' = "reset_req ''R'' ''An0ther!Passw0rd''" and l' = demo_lib and w' = ?w]
      ok tok' pw' sv bv us
    by (simp add: badRequest_def)
qed

section \<open>Failed logins: the temporary block\<close>

text \<open>
  The login handler calls \<^verbatim>\<open>trackFailedLogin\<close> with three arguments, so \<open>userId\<close> is
  undefined there and the lock branch is not taken.
\<close>

lemma trackFailedLogin_anonymous:
  "trackFailedLogin t email req reason None s =
     (let total = getFailedLoginAttempts (auditLogs s) t email 15 + 1;
          ipTotal = getFailedLoginAttemptsByIP (auditLogs s) t (getClientIP req) 15 + 1;
          daily = getFailedLoginAttempts (auditLogs s) t email 1440 + 1;
          s1 = logSecurityEvent t LOGIN_FAILED (login_severity total ipTotal)
                 \<lparr>d_userId = None, d_email = Some email, d_ipAddress = Some (getClientIP req),
                  d_userAgent = Some (getUserAgent req),
                  d_metadata = [(''reason'', MStr reason), (''emailAttempts'', MNum total),
                                (''ipAttempts'', MNum ipTotal), (''dailyAttempts'', MNum daily)],
                  d_req = None\<rparr> s
      in if 5 \<le> total \<or> 10 \<le> ipTotal then
           (\<lparr>blocked = True, attemptsLeft = None, accountLocked = None\<rparr>,
            logSecurityEvent t LOGIN_BLOCKED critical
              \<lparr>d_userId = None, d_email = Some email, d_ipAddress = Some (getClientIP req),
               d_userAgent = Some (getUserAgent req),
               d_metadata = [(''reason'', MStr ''Too many failed attempts''),
                             (''emailAttempts'', MNum total), (''ipAttempts'', MNum ipTotal)],
               d_req = None\<rparr> s1)
         else (\<lparr>blocked = False, attemptsLeft = Some (5 - total), accountLocked = None\<rparr>, s1))"
  by (simp add: trackFailedLogin_def Let_def)

lemma logSecurityEvent_auditLogs:
  "auditLogs (logSecurityEvent t ev sev d s) =
     auditLogs s @
       [\<lparr>eventType = ev, severity = sev, al_id = nextId s, al_userId = d_userId d,
         al_email = d_email d,
         al_ipAddress = or_else (d_ipAddress d) (map_option getClientIP (d_req d)),
         al_userAgent = or_else (d_userAgent d) (map_option getUserAgent (d_req d)),
         al_details = d_metadata d, al_timestamp = t, resolved = False\<rparr>]"
  by (simp add: logSecurityEvent_def createAuditLog_def Let_def)


lemma getUserAgent_truthy: "truthy (Some (getUserAgent req))"
  by (auto simp: getUserAgent_def or_else_def truthy_def split: option.splits)









section \<open>Failed logins: the account lock\<close>

text \<open>No request through the login route changes any account's lock flag.\<close>

lemma trackFailedLogin_anonymous_users:
  "users (snd (trackFailedLogin t email req reason None s)) = users s"
  by (simp add: trackFailedLogin_anonymous Let_def logSecurityEvent_frame)

lemma login_route_keeps_locks:
  "map locked (users (snd (login_route limited l w req s))) = map locked (users s)"
  by (auto simp: login_route_def login_handler_def Let_def split_beta
      trackFailedLogin_anonymous_users trackSuspiciousActivity_def logSecurityEvent_frame
      trackSuccessfulLogin_def updateLastLogin_def createRefreshToken_def updateOne_map
      split: option.splits)

text \<open>
  C1 at a concrete input. Ten failed logins for one existing account, one hour apart, all
  through POST /auth/login: the tenth \<^verbatim>\<open>LOGIN_FAILED\<close> entry records
  \<open>dailyAttempts = 10\<close>, yet the account's \<open>locked\<close> field is still false, no
  \<^verbatim>\<open>ACCOUNT_LOCKED\<close> entry exists, and an eleventh attempt with the correct password is
  answered 200.
\<close>

theorem login_never_locks_at_ten:
  "map status (fst (run_logins demo_lib
      (hourly_failures @ [(36000000, login_req ''10.0.0.1'' ''alice@example.com'' ''Str0ng!Pass9'')])
      state0)) = [400, 400, 400, 400, 400, 400, 400, 400, 400, 400, 200] \<and>
   map (\<lambda>d. map_of (al_details d) ''dailyAttempts'')
     (filter (\<lambda>d. eventType d = LOGIN_FAILED)
        (auditLogs (snd (run_logins demo_lib hourly_failures state0)))) =
     map (\<lambda>i. Some (MNum i)) [1, 2, 3, 4, 5, 6, 7, 8, 9, 10] \<and>
   map locked (users (snd (run_logins demo_lib hourly_failures state0))) = [False] \<and>
   filter (\<lambda>d. eventType d = ACCOUNT_LOCKED)
     (auditLogs (snd (run_logins demo_lib hourly_failures state0))) = []"
  by code_simp

section \<open>Failed logins: recorded severity\<close>

text \<open>
  On the two totals it computes, \<^verbatim>\<open>trackFailedLogin\<close> grades a failure as the ladder
  says, the highest rung that applies, and records the \<^verbatim>\<open>LOGIN_FAILED\<close> entry with
  that grade.
\<close>

lemma login_severity_ladder:
  "(login_severity e ip = critical \<longleftrightarrow> 5 \<le> e \<or> 10 \<le> ip) \<and>
   (login_severity e ip = high \<longleftrightarrow> \<not> (5 \<le> e \<or> 10 \<le> ip) \<and> (3 \<le> e \<or> 5 \<le> ip)) \<and>
   (login_severity e ip = medium \<longleftrightarrow> e = 2 \<and> ip < 5) \<and>
   (login_severity e ip = low \<longleftrightarrow> e < 2 \<and> ip < 5)"
  by (auto simp: login_severity_def)

lemma trackFailedLogin_records_severity:
  "\<exists>e rest. auditLogs (snd (trackFailedLogin t email req reason userId s)) =
       auditLogs s @ e # rest \<and>
     eventType e = LOGIN_FAILED \<and> al_email e = Some email \<and> al_timestamp e = t \<and>
     severity e =
       login_severity (getFailedLoginAttempts (auditLogs s) t email 15 + 1)
         (getFailedLoginAttemptsByIP (auditLogs s) t (getClientIP req) 15 + 1)"
  by (auto simp: trackFailedLogin_def Let_def logSecurityEvent_auditLogs lockAccount_def
      split: option.splits)

text \<open>
  C8 at a concrete input. Three consecutive failures with the email written
  \<^verbatim>\<open>Alice@Example.com\<close> are recorded low, low, low: the entry stores the email as typed
  and the count looks for its lower-case form. The same three failures with the email in
  lower case are recorded low, medium, high.
\<close>

theorem mixed_case_severity:
  "map severity (filter (\<lambda>d. eventType d = LOGIN_FAILED)
     (auditLogs (snd (run_logins demo_lib
        [(0, login_req ''10.0.0.1'' ''Alice@Example.com'' ''guess1''),
         (1000, login_req ''10.0.0.1'' ''Alice@Example.com'' ''guess2''),
         (2000, login_req ''10.0.0.1'' ''Alice@Example.com'' ''guess3'')] state0)))) =
     [low, low, low] \<and>
   map severity (filter (\<lambda>d. eventType d = LOGIN_FAILED)
     (auditLogs (snd (run_logins demo_lib
        [(0, login_req ''10.0.0.1'' ''alice@example.com'' ''guess1''),
         (1000, login_req ''10.0.0.1'' ''alice@example.com'' ''guess2''),
         (2000, login_req ''10.0.0.1'' ''alice@example.com'' ''guess3'')] state0)))) =
     [low, medium, high]"
  by code_simp

section \<open>Invalid tokens on GET /auth/validate and GET /auth/me\<close>

text \<open>
  For a non-empty bearer token that \<^verbatim>\<open>jwt.verify\<close> rejects, both handlers answer 401;
  \<^verbatim>\<open>/validate\<close> appends one \<^verbatim>\<open>TOKEN_VALIDATION_FAILED\<close> entry of severity medium,
  \<^verbatim>\<open>/me\<close> leaves the state as it was.
\<close>

lemma me_handler_invalid_token:
  assumes "extractTokenFromHeader (authorization req) = Some tok" and "tok \<noteq> []"
    and "verifyAccessToken l (now w) tok = None"
  shows "me_handler l w req s =
           (\<lparr>status = 401, body = ErrorBody ''Invalid or expired token''\<rparr>, s)"
  using assms
  by (simp add: me_handler_def verifyAccessTokenWithContext_def with_status_def or_else_def
      truthy_def)

lemma validate_handler_invalid_token:
  assumes "extractTokenFromHeader (authorization req) = Some tok" and "tok \<noteq> []"
    and "verifyAccessToken l (now w) tok = None"
  shows "fst (validate_handler l w req s) =
           \<lparr>status = 401, body = ErrorBody ''Invalid or expired token''\<rparr> \<and>
         (\<exists>e. auditLogs (snd (validate_handler l w req s)) = auditLogs s @ [e] \<and>
              eventType e = TOKEN_VALIDATION_FAILED \<and> severity e = medium)"
  using assms
  by (simp add: validate_handler_def verifyAccessTokenWithContext_def with_status_def
      trackTokenValidationFailure_def logSecurityEvent_auditLogs or_else_def truthy_def)

text \<open>
  C7 at a concrete input: a malformed bearer token on GET /auth/me is answered 401 and
  nothing is recorded; the same request on GET /auth/validate records the entry.
\<close>

theorem me_records_nothing:
  "me_handler demo_lib (demo_world 0) (bearer_req ''garbage'') state0 =
     (\<lparr>status = 401, body = ErrorBody ''Invalid or expired token''\<rparr>, state0) \<and>
   fst (validate_handler demo_lib (demo_world 0) (bearer_req ''garbage'') state0) =
     \<lparr>status = 401, body = ErrorBody ''Invalid or expired token''\<rparr> \<and>
   map (\<lambda>d. (eventType d, severity d))
     (auditLogs (snd (validate_handler demo_lib (demo_world 0) (bearer_req ''garbage'') state0))) =
     [(TOKEN_VALIDATION_FAILED, medium)]"
  by code_simp

section \<open>POST /auth/forgot-password\<close>

lemma trackPasswordResetRequest_blocked:
  "rc_blocked (fst (trackPasswordResetRequest t email req ex s)) =
     (3 < getPasswordResetRequestsByEmail (auditLogs s) t email 60 + 1 \<or>
      5 < getPasswordResetRequestsByIP (auditLogs s) t (getClientIP req) 60 + 1) \<and>
   rc_reason (fst (trackPasswordResetRequest t email req ex s)) =
     (if 3 < getPasswordResetRequestsByEmail (auditLogs s) t email 60 + 1
      then Some ''Too many password reset requests for this email. Please try again in 1 hour.''
      else if 5 < getPasswordResetRequestsByIP (auditLogs s) t (getClientIP req) 60 + 1
      then Some ''Too many password reset requests from this location. Please try again in 1 hour.''
      else None)"
  by (simp add: trackPasswordResetRequest_def Let_def)

lemma trackPasswordResetRequest_frame:
  "users (snd (trackPasswordResetRequest t email req ex s)) = users s \<and>
   passwordResetTokens (snd (trackPasswordResetRequest t email req ex s)) = passwordResetTokens s \<and>
   outbox (snd (trackPasswordResetRequest t email req ex s)) = outbox s"
  by (simp add: trackPasswordResetRequest_def Let_def logSecurityEvent_frame)

text \<open>When the transport takes the mail, the answer does not depend on the accounts.\<close>

lemma forgot_password_same_answer:
  assumes "sendMail_ok w" and "auditLogs s = auditLogs s'"
  shows "fst (forgot_password_route limited w req s) = fst (forgot_password_route limited w req s')"
  using assms
  by (auto simp: forgot_password_route_def forgot_password_handler_def Let_def split_beta
      trackPasswordResetRequest_blocked sendPasswordResetEmail_def
      split: option.splits)

lemma forgot_password_unknown_account:
  assumes "nonblank_string (body_field req ''email'') = Some email"
    and "findUserByEmail (users s) email = None"
  shows "passwordResetTokens (snd (forgot_password_route limited w req s)) = passwordResetTokens s \<and>
         outbox (snd (forgot_password_route limited w req s)) = outbox s"
  using assms
  by (auto simp: forgot_password_route_def forgot_password_handler_def Let_def split_beta
      trackPasswordResetRequest_frame)

text \<open>
  C9 at a concrete input: with a mail transport that rejects the message, the request for
  an existing account is answered 500 with the mail error, the request for an unknown
  email with the generic 200.
\<close>

theorem forgot_password_mail_failure:
  "fst (forgot_password_route False (demo_world 0) (forgot_req ''alice@example.com'') state0) =
     \<lparr>status = 500, body = ErrorBody ''Failed to send password reset email''\<rparr> \<and>
   fst (forgot_password_route False (demo_world 0) (forgot_req ''nobody@example.com'') state0) =
     \<lparr>status = 200,
      body = MessageBody
        ''If an account exists with this email, a password reset link has been sent''\<rparr>"
  by code_simp

end
